theory Spec2Isabelle
  imports Main "HOL-Library.Sublist"
begin

section \<open>Exceptions\<close>

text \<open>
  The script \<^verbatim>\<open>scripts/convert_pdf.py\<close> handles no exception: whatever is raised ends
  the run.  Every exception that a modelled operation can raise is a value of the type
  below, and a computation that may raise returns \<open>error + 'a\<close> with \<open>Inl\<close> for the
  exception.  The three \<open>PDF...\<close> constructors are the exceptions of the rendering
  library; the last four are the subclasses of Python's \<open>OSError\<close> that the shape of
  the directory tree can cause.
\<close>

datatype error =
    RuntimeError
  | ValueError
  | IndexError
  | OSError
  | PDFInfoNotInstalledError
  | PDFPageCountError
  | PDFSyntaxError
  | FileNotFoundError
  | NotADirectoryError
  | IsADirectoryError
  | FileExistsError

section \<open>Strings\<close>

text \<open>
  Python strings are modelled as \<^typ>\<open>string\<close>; a character is one of the 256 code
  points of Latin-1, which contains every character the script itself writes.  The
  classifications below are Python's, cut down to that range.
\<close>

definition is_linebreak :: "char \<Rightarrow> bool" where
  \<comment> \<open>the line boundaries of \<^verbatim>\<open>str.splitlines\<close>: LF, VT, FF, CR, FS, GS, RS, NEL\<close>
  "is_linebreak c = (of_char c \<in> {10, 11, 12, 13, 28, 29, 30, 133 :: nat})"

definition is_space :: "char \<Rightarrow> bool" where
  \<comment> \<open>\<^verbatim>\<open>str.isspace\<close>: the characters that \<^verbatim>\<open>str.strip()\<close> removes\<close>
  "is_space c = (of_char c \<in> {9, 10, 11, 12, 13, 28, 29, 30, 31, 32, 133, 160 :: nat})"

definition is_int_space :: "char \<Rightarrow> bool" where
  \<comment> \<open>the white space that \<^verbatim>\<open>int()\<close> skips before and after a literal: not the four
      separators FS, GS, RS, US\<close>
  "is_int_space c = (of_char c \<in> {9, 10, 11, 12, 13, 32, 133, 160 :: nat})"

definition is_digit :: "char \<Rightarrow> bool" where
  "is_digit c = (48 \<le> (of_char c :: nat) \<and> (of_char c :: nat) \<le> 57)"

definition digit_val :: "char \<Rightarrow> nat" where
  "digit_val c = of_char c - 48"

definition digit_char :: "nat \<Rightarrow> char" where
  "digit_char d = char_of (48 + d)"

definition startswith :: "string \<Rightarrow> string \<Rightarrow> bool" where
  \<comment> \<open>\<^verbatim>\<open>s.startswith(p)\<close>\<close>
  "startswith s p = (take (length p) s = p)"

fun splitlines_from :: "string \<Rightarrow> string \<Rightarrow> string list" where
  "splitlines_from cur [] = (if cur = [] then [] else [cur])"
| "splitlines_from cur [c] = (if is_linebreak c then [cur] else [cur @ [c]])"
| "splitlines_from cur (c # d # cs) =
     (if of_char c = (13::nat) \<and> of_char d = (10::nat) then cur # splitlines_from [] cs
      else if is_linebreak c then cur # splitlines_from [] (d # cs)
      else splitlines_from (cur @ [c]) (d # cs))"

definition py_splitlines :: "string \<Rightarrow> string list" where
  \<comment> \<open>\<^verbatim>\<open>s.splitlines()\<close>: the lines without their terminators; CR LF is one terminator;
      no empty last line after a final terminator\<close>
  "py_splitlines s = splitlines_from [] s"

fun split_from :: "char \<Rightarrow> string \<Rightarrow> string \<Rightarrow> string list" where
  "split_from sep cur [] = [cur]"
| "split_from sep cur (c # cs) =
     (if c = sep then cur # split_from sep [] cs else split_from sep (cur @ [c]) cs)"

definition py_split :: "string \<Rightarrow> char \<Rightarrow> string list" where
  \<comment> \<open>\<^verbatim>\<open>s.split(sep)\<close> for a separator of one character\<close>
  "py_split s sep = split_from sep [] s"

definition strip_chars :: "(char \<Rightarrow> bool) \<Rightarrow> string \<Rightarrow> string" where
  "strip_chars P s = rev (dropWhile P (rev (dropWhile P s)))"

definition py_strip :: "string \<Rightarrow> string" where
  \<comment> \<open>\<^verbatim>\<open>s.strip()\<close>\<close>
  "py_strip s = strip_chars is_space s"

fun int_body :: "bool \<Rightarrow> string \<Rightarrow> string option" where
  \<comment> \<open>the digits of an integer literal, underscores removed; an underscore is accepted
      only between two digits.  The flag says that the previous character was a digit.\<close>
  "int_body prev [] = (if prev then Some [] else None)"
| "int_body prev (c # cs) =
     (if is_digit c then map_option ((#) c) (int_body True cs)
      else if c = CHR ''_'' \<and> prev then int_body False cs
      else None)"

definition digits_value :: "string \<Rightarrow> nat" where
  "digits_value ds = foldl (\<lambda>a c. 10 * a + digit_val c) 0 ds"

definition max_str_digits :: nat where
  \<comment> \<open>CPython's default limit on the digits of a string converted to \<open>int\<close>\<close>
  "max_str_digits = 4300"

definition py_int :: "string \<Rightarrow> int option" where
  \<comment> \<open>\<^verbatim>\<open>int(s)\<close> in base 10; \<open>None\<close> stands for the \<open>ValueError\<close>\<close>
  "py_int s =
     (let t = strip_chars is_int_space s;
          neg = (t \<noteq> [] \<and> hd t = CHR ''-'');
          body = (if t \<noteq> [] \<and> (hd t = CHR ''-'' \<or> hd t = CHR ''+'') then tl t else t)
      in case int_body False body of
           None \<Rightarrow> None
         | Some ds \<Rightarrow>
             if max_str_digits < length ds then None
             else Some (if neg then - int (digits_value ds) else int (digits_value ds)))"

fun py_str :: "nat \<Rightarrow> string" where
  \<comment> \<open>the decimal digits of a natural number, as \<^verbatim>\<open>str(n)\<close> gives them\<close>
  "py_str n = (if n < 10 then [digit_char n] else py_str (n div 10) @ [digit_char (n mod 10)])"

declare py_str.simps [simp del]

definition zfill :: "nat \<Rightarrow> string \<Rightarrow> string" where
  "zfill w s = replicate (w - length s) CHR ''0'' @ s"

definition format_03d :: "int \<Rightarrow> string" where
  \<comment> \<open>\<^verbatim>\<open>f"{i:03d}"\<close>: at least three characters, zeros after the sign\<close>
  "format_03d i =
     (if i < 0 then CHR ''-'' # zfill 2 (py_str (nat (- i))) else zfill 3 (py_str (nat i)))"

definition basename :: "string \<Rightarrow> string" where
  \<comment> \<open>\<^verbatim>\<open>os.path.basename\<close>: what follows the last slash\<close>
  "basename p = rev (takeWhile (\<lambda>c. c \<noteq> CHR ''/'') (rev p))"

definition path_join :: "string \<Rightarrow> string \<Rightarrow> string" where
  \<comment> \<open>\<^verbatim>\<open>os.path.join(a, b)\<close> of \<^verbatim>\<open>posixpath\<close>\<close>
  "path_join a b =
     (if startswith b ''/'' then b
      else if a = [] \<or> last a = CHR ''/'' then a @ b
      else a @ ''/'' @ b)"

section \<open>Raster images\<close>

text \<open>
  An image of the imaging library has a size in pixels (width, height), a colour mode
  named by a string (\<^verbatim>\<open>"RGB"\<close>, \<^verbatim>\<open>"RGBA"\<close>, \<^verbatim>\<open>"L"\<close>, \<^verbatim>\<open>"P"\<close>, ...) and pixel data.
  Pixel data are kept symbolic: what the renderer decoded, and which operations were
  applied to it since.
\<close>

datatype raster =
    Decoded nat
  | Resampled "nat \<times> nat" raster
  | Converted string raster

record image =
  img_size :: "nat \<times> nat"
  img_mode :: string
  img_data :: raster

definition resize :: "nat \<times> nat \<Rightarrow> image \<Rightarrow> image" where
  \<comment> \<open>\<^verbatim>\<open>page.resize(size, Image.LANCZOS)\<close>: a new image of exactly that size and of the
      same mode; an image that already has the size is copied unchanged\<close>
  "resize sz im =
     (if img_size im = sz then im
      else im\<lparr>img_size := sz, img_data := Resampled sz (img_data im)\<rparr>)"

definition convert :: "string \<Rightarrow> image \<Rightarrow> image" where
  \<comment> \<open>\<^verbatim>\<open>resized.convert(mode)\<close>: a new image of that mode and of the same size\<close>
  "convert m im = im\<lparr>img_mode := m, img_data := Converted m (img_data im)\<rparr>"

section \<open>The external collaborators\<close>

text \<open>
  The script reaches the source document only through two external tools and reads the
  clock once.  They are parameters of the model:
  \<^item> \<open>pdfinfo\<close> is \<^verbatim>\<open>subprocess.run(["pdfinfo", path], capture_output=True, text=True)\<close>:
    either the exception raised when the tool cannot be run or its output cannot be
    decoded, or the completed process with its exit status and decoded output;
  \<^item> \<open>convert_from_path\<close> is the renderer, called with the path, the sampling density and
    the first and last page: the exception it raises, or the list of decoded images;
  \<^item> \<open>strftime_now\<close> is \<^verbatim>\<open>datetime.now(timezone.utc).strftime("%Y-%m-%dT%H:%M:%SZ")\<close>.

  Both tools are functions of their arguments alone: the document they read is not
  changed by the run, in particular it is not stored below the output directory that
  the run deletes.
\<close>

record completed_process =
  returncode :: int
  stdout :: string
  stderr :: string

record env =
  pdfinfo :: "string \<Rightarrow> error + completed_process"
  convert_from_path :: "string \<Rightarrow> nat \<Rightarrow> int \<Rightarrow> int \<Rightarrow> error + image list"
  strftime_now :: string

section \<open>The page-count probe\<close>

fun scan_lines :: "string list \<Rightarrow> error + int" where
  \<comment> \<open>the \<^verbatim>\<open>for line in ...\<close> loop of \<^verbatim>\<open>get_total_pages\<close> and the \<^verbatim>\<open>raise\<close> after it\<close>
  "scan_lines [] = Inl RuntimeError"
| "scan_lines (line # rest) =
     (if startswith line ''Pages:'' then
        (case py_split line CHR '':'' of
           _ # field # _ \<Rightarrow>
             (case py_int (py_strip field) of
                None \<Rightarrow> Inl ValueError
              | Some n \<Rightarrow> Inr n)
         | _ \<Rightarrow> Inl IndexError)
      else scan_lines rest)"

definition get_total_pages :: "env \<Rightarrow> string \<Rightarrow> error + int" where
  "get_total_pages e pdf_path =
     (case pdfinfo e pdf_path of
        Inl err \<Rightarrow> Inl err
      | Inr result \<Rightarrow> scan_lines (py_splitlines (stdout result)))"

section \<open>The file system\<close>

text \<open>
  The working directory is a tree: a directory maps names to nodes, a node is a file
  with its content or again a directory.  The content of a slide file is the image
  handed to the JPEG encoder together with the quality setting; the content of the
  metadata file is the dictionary handed to \<^verbatim>\<open>json.dump\<close>; any other file is some bytes.

  The operations fail only for reasons that the shape of the tree shows: a name that is
  missing, a file where a directory is needed, a directory where a file is to be
  written.  Permissions, full disks, symbolic links and other processes are not
  modelled, nor is a removal that fails half-way.
\<close>

record metadata =
  total_pages :: int
  version :: int
  generated_at :: string
  source_pdf :: string

datatype content =
    Jpeg nat image
  | Json metadata
  | Bytes string

datatype node =
    File content
  | Dir "string \<Rightarrow> node option"

type_synonym dir = "string \<Rightarrow> node option"

fun lookup :: "dir \<Rightarrow> string list \<Rightarrow> node option" where
  "lookup d [] = Some (Dir d)"
| "lookup d (c # cs) =
     (case d c of
        None \<Rightarrow> None
      | Some (File x) \<Rightarrow> (if cs = [] then Some (File x) else None)
      | Some (Dir d') \<Rightarrow> lookup d' cs)"

fun remove_tree :: "string list \<Rightarrow> dir \<Rightarrow> error + dir" where
  \<comment> \<open>\<^verbatim>\<open>shutil.rmtree\<close>: the directory at the path goes with everything below it\<close>
  "remove_tree [] d = Inl FileNotFoundError"
| "remove_tree (c # cs) d =
     (case d c of
        None \<Rightarrow> Inl FileNotFoundError
      | Some (File x) \<Rightarrow> Inl NotADirectoryError
      | Some (Dir d') \<Rightarrow>
          (if cs = [] then Inr (d(c := None))
           else (case remove_tree cs d' of
                   Inl err \<Rightarrow> Inl err
                 | Inr d'' \<Rightarrow> Inr (d(c \<mapsto> Dir d'')))))"

fun fresh_dirs :: "string list \<Rightarrow> node" where
  "fresh_dirs [] = Dir Map.empty"
| "fresh_dirs (c # cs) = Dir [c \<mapsto> fresh_dirs cs]"

fun make_dirs :: "string list \<Rightarrow> dir \<Rightarrow> error + dir" where
  \<comment> \<open>\<^verbatim>\<open>os.makedirs\<close> without \<^verbatim>\<open>exist_ok\<close>: the missing ancestors are created too, an
      existing target is an error\<close>
  "make_dirs [] d = Inl FileNotFoundError"
| "make_dirs (c # cs) d =
     (case d c of
        None \<Rightarrow> Inr (d(c \<mapsto> fresh_dirs cs))
      | Some (File x) \<Rightarrow> Inl (if cs = [] then FileExistsError else NotADirectoryError)
      | Some (Dir d') \<Rightarrow>
          (if cs = [] then Inl FileExistsError
           else (case make_dirs cs d' of
                   Inl err \<Rightarrow> Inl err
                 | Inr d'' \<Rightarrow> Inr (d(c \<mapsto> Dir d'')))))"

fun write_file :: "string list \<Rightarrow> content \<Rightarrow> dir \<Rightarrow> error + dir" where
  \<comment> \<open>opening a path for writing and storing the content: the file is created or
      replaced; the directory that holds it must exist\<close>
  "write_file [] x d = Inl FileNotFoundError"
| "write_file (c # cs) x d =
     (if cs = [] then
        (case d c of
           Some (Dir d') \<Rightarrow> Inl IsADirectoryError
         | _ \<Rightarrow> Inr (d(c \<mapsto> File x)))
      else
        (case d c of
           None \<Rightarrow> Inl FileNotFoundError
         | Some (File y) \<Rightarrow> Inl NotADirectoryError
         | Some (Dir d') \<Rightarrow>
             (case write_file cs x d' of
                Inl err \<Rightarrow> Inl err
              | Inr d'' \<Rightarrow> Inr (d(c \<mapsto> Dir d'')))))"

definition components :: "string \<Rightarrow> string list" where
  \<comment> \<open>the names along a relative path; the paths of the script contain neither
      \<^verbatim>\<open>.\<close> nor \<^verbatim>\<open>..\<close>\<close>
  "components p = filter (\<lambda>c. c \<noteq> []) (py_split p CHR ''/'')"

text \<open>
  The state of a run is the tree together with a journal: the calls of the renderer and
  the operations that changed the tree, in the order in which they happened.  An
  operation that raises changes nothing and is not recorded.
\<close>

datatype event =
    Rendered string nat int int
  | Removed_tree string
  | Made_dirs string
  | Saved string nat image
  | Dumped string metadata

record world =
  files :: dir
  journal :: "event list"

definition os_path_exists :: "string \<Rightarrow> world \<Rightarrow> bool" where
  "os_path_exists p w = (lookup (files w) (components p) \<noteq> None)"

definition shutil_rmtree :: "string \<Rightarrow> world \<Rightarrow> (error + unit) \<times> world" where
  "shutil_rmtree p w =
     (case remove_tree (components p) (files w) of
        Inl err \<Rightarrow> (Inl err, w)
      | Inr d \<Rightarrow> (Inr (), w\<lparr>files := d, journal := journal w @ [Removed_tree p]\<rparr>))"

definition os_makedirs :: "string \<Rightarrow> world \<Rightarrow> (error + unit) \<times> world" where
  "os_makedirs p w =
     (case make_dirs (components p) (files w) of
        Inl err \<Rightarrow> (Inl err, w)
      | Inr d \<Rightarrow> (Inr (), w\<lparr>files := d, journal := journal w @ [Made_dirs p]\<rparr>))"

definition image_save :: "image \<Rightarrow> string \<Rightarrow> nat \<Rightarrow> world \<Rightarrow> (error + unit) \<times> world" where
  \<comment> \<open>\<^verbatim>\<open>resized.save(filepath, "JPEG", quality=q)\<close>\<close>
  "image_save im p q w =
     (case write_file (components p) (Jpeg q im) (files w) of
        Inl err \<Rightarrow> (Inl err, w)
      | Inr d \<Rightarrow> (Inr (), w\<lparr>files := d, journal := journal w @ [Saved p q im]\<rparr>))"

definition json_dump :: "metadata \<Rightarrow> string \<Rightarrow> world \<Rightarrow> (error + unit) \<times> world" where
  \<comment> \<open>\<^verbatim>\<open>with open(p, "w", encoding="utf-8") as f: json.dump(meta, f, ...)\<close>\<close>
  "json_dump m p w =
     (case write_file (components p) (Json m) (files w) of
        Inl err \<Rightarrow> (Inl err, w)
      | Inr d \<Rightarrow> (Inr (), w\<lparr>files := d, journal := journal w @ [Dumped p m]\<rparr>))"

section \<open>The converter\<close>

text \<open>
  The constants of the script and its function \<^verbatim>\<open>convert_pdf_to_slides\<close>; the body of
  the loop and the reset of the output directory are named on their own.  The progress
  messages of the script, and the size of the saved file that is read for them, are not
  modelled: they are taken to succeed, and they change neither the tree nor the
  outcome.  The release of the images at the end of an iteration has no effect on the
  values computed.  The command-line entry of the script, which checks the number of
  arguments and that the input file exists before it calls the function, is not
  modelled either.
\<close>

definition OUTPUT_DIR :: string where "OUTPUT_DIR = ''Web/slides''"
definition META_PATH :: string where "META_PATH = ''Web/meta.json''"
definition TARGET_WIDTH :: nat where "TARGET_WIDTH = 1920"
definition TARGET_HEIGHT :: nat where "TARGET_HEIGHT = 1080"
definition JPG_QUALITY :: nat where "JPG_QUALITY = 85"
definition DPI :: nat where "DPI = 150"

definition slide_filename :: "int \<Rightarrow> string" where
  \<comment> \<open>\<^verbatim>\<open>f"slide_{page_num:03d}.jpg"\<close>\<close>
  "slide_filename page_num = ''slide_'' @ format_03d page_num @ ''.jpg''"

definition slide_image :: "image \<Rightarrow> image" where
  \<comment> \<open>lines 61 to 63: resize, then convert unless the mode is already RGB\<close>
  "slide_image page =
     (let resized = resize (TARGET_WIDTH, TARGET_HEIGHT) page
      in if img_mode resized \<noteq> ''RGB'' then convert ''RGB'' resized else resized)"

definition render_page :: "env \<Rightarrow> string \<Rightarrow> int \<Rightarrow> world \<Rightarrow> (error + unit) \<times> world" where
  \<comment> \<open>the body of the loop for one \<open>page_num\<close>\<close>
  "render_page e pdf_path page_num w =
     (let w1 = w\<lparr>journal := journal w @ [Rendered pdf_path DPI page_num page_num]\<rparr>
      in case convert_from_path e pdf_path DPI page_num page_num of
           Inl err \<Rightarrow> (Inl err, w1)
         | Inr pages \<Rightarrow>
             (case pages of
                [] \<Rightarrow> (Inl IndexError, w1)
              | page # _ \<Rightarrow>
                  image_save (slide_image page)
                    (path_join OUTPUT_DIR (slide_filename page_num)) JPG_QUALITY w1))"

fun render_pages :: "env \<Rightarrow> string \<Rightarrow> int list \<Rightarrow> world \<Rightarrow> (error + unit) \<times> world" where
  \<comment> \<open>the \<^verbatim>\<open>for page_num in ...\<close> loop over the page numbers that are left\<close>
  "render_pages e pdf_path [] w = (Inr (), w)"
| "render_pages e pdf_path (page_num # rest) w =
     (case render_page e pdf_path page_num w of
        (Inl err, w') \<Rightarrow> (Inl err, w')
      | (Inr u, w') \<Rightarrow> render_pages e pdf_path rest w')"

definition reset_output_dir :: "world \<Rightarrow> (error + unit) \<times> world" where
  \<comment> \<open>lines 47 to 49\<close>
  "reset_output_dir w =
     (case (if os_path_exists OUTPUT_DIR w then shutil_rmtree OUTPUT_DIR w else (Inr (), w)) of
        (Inl err, w') \<Rightarrow> (Inl err, w')
      | (Inr u, w') \<Rightarrow> os_makedirs OUTPUT_DIR w')"

definition convert_pdf_to_slides :: "env \<Rightarrow> string \<Rightarrow> world \<Rightarrow> (error + unit) \<times> world" where
  "convert_pdf_to_slides e pdf_path w =
     (let pdf_filename = basename pdf_path
      in case get_total_pages e pdf_path of
           Inl err \<Rightarrow> (Inl err, w)
         | Inr n \<Rightarrow>
             (case reset_output_dir w of
                (Inl err, w1) \<Rightarrow> (Inl err, w1)
              | (Inr u, w1) \<Rightarrow>
                  (case render_pages e pdf_path [1 .. n] w1 of
                     (Inl err, w2) \<Rightarrow> (Inl err, w2)
                   | (Inr u, w2) \<Rightarrow>
                       json_dump
                         \<lparr>total_pages = n, version = 1,
                          generated_at = strftime_now e, source_pdf = pdf_filename\<rparr>
                         META_PATH w2)))"

section \<open>What a run leaves behind\<close>

text \<open>
  The definitions of this section are not part of the script: they name what the
  theorems below speak about.

  A page \<open>i\<close> fails to render when the renderer raises, or when it returns no image and
  the indexing \<^verbatim>\<open>pages[0]\<close> raises.
\<close>

definition render_failure :: "env \<Rightarrow> string \<Rightarrow> int \<Rightarrow> error option" where
  "render_failure e p i =
     (case convert_from_path e p DPI i i of
        Inl err \<Rightarrow> Some err
      | Inr [] \<Rightarrow> Some IndexError
      | Inr (page # _) \<Rightarrow> None)"

text \<open>Three readings of a journal: the paths saved to, the pages requested from the
  renderer, and the metadata documents written, each in the order of the journal.\<close>

fun saved_paths :: "event list \<Rightarrow> string list" where
  "saved_paths [] = []"
| "saved_paths (Saved q k im # evs) = q # saved_paths evs"
| "saved_paths (ev # evs) = saved_paths evs"

fun rendered_pages :: "event list \<Rightarrow> int list" where
  "rendered_pages [] = []"
| "rendered_pages (Rendered q d a b # evs) = a # rendered_pages evs"
| "rendered_pages (ev # evs) = rendered_pages evs"

fun dumps :: "event list \<Rightarrow> (string \<times> metadata) list" where
  "dumps [] = []"
| "dumps (Dumped q m # evs) = (q, m) # dumps evs"
| "dumps (ev # evs) = dumps evs"

text \<open>
  The script only touches the entry \<^verbatim>\<open>Web\<close> of the working directory, and below it the
  entries \<^verbatim>\<open>slides\<close> and \<^verbatim>\<open>meta.json\<close>.  \<open>web_entries\<close> is the directory \<^verbatim>\<open>Web\<close> as the
  run finds it (empty when it has to be created), \<open>with_slides T S\<close> is the tree \<open>T\<close>
  with \<open>S\<close> as the directory \<^verbatim>\<open>Web/slides\<close>, and \<open>final_tree T S m\<close> has the metadata
  document \<open>m\<close> beside it.
\<close>

definition web_entries :: "dir \<Rightarrow> dir" where
  "web_entries T = (case T ''Web'' of Some (Dir W) \<Rightarrow> W | _ \<Rightarrow> Map.empty)"

definition with_slides :: "dir \<Rightarrow> dir \<Rightarrow> dir" where
  "with_slides T S = T(''Web'' \<mapsto> Dir ((web_entries T)(''slides'' \<mapsto> Dir S)))"

definition final_tree :: "dir \<Rightarrow> dir \<Rightarrow> metadata \<Rightarrow> dir" where
  "final_tree T S m =
     T(''Web'' \<mapsto> Dir ((web_entries T)(''slides'' \<mapsto> Dir S, ''meta.json'' \<mapsto> File (Json m))))"

text \<open>
  The reset of the output directory succeeds unless \<^verbatim>\<open>Web\<close> or \<^verbatim>\<open>Web/slides\<close> is a file;
  the metadata document can be written unless \<^verbatim>\<open>Web/meta.json\<close> is a directory.
\<close>

definition resettable :: "dir \<Rightarrow> bool" where
  "resettable T =
     (case T ''Web'' of
        None \<Rightarrow> True
      | Some (File x) \<Rightarrow> False
      | Some (Dir W) \<Rightarrow> (case W ''slides'' of Some (File x) \<Rightarrow> False | _ \<Rightarrow> True))"

definition meta_writable :: "dir \<Rightarrow> bool" where
  "meta_writable T = (case web_entries T ''meta.json'' of Some (Dir d) \<Rightarrow> False | _ \<Rightarrow> True)"

definition files_only :: "dir \<Rightarrow> bool" where
  "files_only S = (\<forall>n d. S n \<noteq> Some (Dir d))"

definition reset_events :: "world \<Rightarrow> event list" where
  "reset_events w =
     (if os_path_exists OUTPUT_DIR w then [Removed_tree OUTPUT_DIR] else []) @ [Made_dirs OUTPUT_DIR]"

text \<open>
  The loop, read off the renderer alone: its outcome, the events it adds to the journal,
  and what it makes of the output directory.  All three stop at the first page that
  fails.
\<close>

fun loop_result :: "env \<Rightarrow> string \<Rightarrow> int list \<Rightarrow> error + unit" where
  "loop_result e p [] = Inr ()"
| "loop_result e p (i # is) =
     (case convert_from_path e p DPI i i of
        Inl err \<Rightarrow> Inl err
      | Inr [] \<Rightarrow> Inl IndexError
      | Inr (page # _) \<Rightarrow> loop_result e p is)"

fun loop_events :: "env \<Rightarrow> string \<Rightarrow> int list \<Rightarrow> event list" where
  "loop_events e p [] = []"
| "loop_events e p (i # is) =
     Rendered p DPI i i #
     (case convert_from_path e p DPI i i of
        Inr (page # _) \<Rightarrow>
          Saved (path_join OUTPUT_DIR (slide_filename i)) JPG_QUALITY (slide_image page)
            # loop_events e p is
      | _ \<Rightarrow> [])"

fun slides_of :: "env \<Rightarrow> string \<Rightarrow> int list \<Rightarrow> dir \<Rightarrow> dir" where
  "slides_of e p [] S = S"
| "slides_of e p (i # is) S =
     (case convert_from_path e p DPI i i of
        Inr (page # _) \<Rightarrow>
          slides_of e p is (S(slide_filename i \<mapsto> File (Jpeg JPG_QUALITY (slide_image page))))
      | _ \<Rightarrow> S)"

section \<open>Sample runs\<close>

text \<open>
  Concrete documents and directory trees, on which the theorems below are exercised.
  \<open>deck_env\<close> is a three-page document; in \<open>broken_env\<close> its second page cannot be
  rendered; \<open>corrupt_env\<close> is a file that the probe rejects; \<open>blank_env\<close> is a document
  without pages.  \<open>negative_env\<close> is a probe that prints a negative count; \<open>garbled_env\<close>
  is a probe whose output has a line \<^verbatim>\<open>Pages: x\<close> before the line with the page count, as
  when the title of the document contains a line break.
\<close>

definition probe_output :: "string \<Rightarrow> error + completed_process" where
  "probe_output out = Inr \<lparr>returncode = 0, stdout = out, stderr = []\<rparr>"

definition a4_page :: "int \<Rightarrow> image" where
  "a4_page i = \<lparr>img_size = (1240, 1754), img_mode = ''RGBA'', img_data = Decoded (nat i)\<rparr>"

definition deck_env :: env where
  "deck_env =
     \<lparr>pdfinfo = (\<lambda>path. probe_output ''Title:          Deck\<newline>Pages:          3\<newline>''),
      convert_from_path =
        (\<lambda>path dpi a b. if a = b \<and> 1 \<le> a \<and> a \<le> 3 then Inr [a4_page a] else Inr []),
      strftime_now = ''2024-01-01T00:00:00Z''\<rparr>"

definition broken_env :: env where
  "broken_env =
     deck_env\<lparr>convert_from_path :=
       (\<lambda>path dpi a b. if a = 2 then Inl PDFSyntaxError else convert_from_path deck_env path dpi a b)\<rparr>"

definition corrupt_env :: env where
  "corrupt_env =
     deck_env\<lparr>pdfinfo :=
       (\<lambda>path. Inr \<lparr>returncode = 1, stdout = [],
                      stderr = ''Syntax Error: Couldn't find trailer dictionary''\<rparr>)\<rparr>"

definition blank_env :: env where
  "blank_env = deck_env\<lparr>pdfinfo := (\<lambda>path. probe_output ''Pages:          0\<newline>'')\<rparr>"

definition negative_env :: env where
  "negative_env = deck_env\<lparr>pdfinfo := (\<lambda>path. probe_output ''Pages: -3\<newline>'')\<rparr>"

definition garbled_env :: env where
  "garbled_env =
     deck_env\<lparr>pdfinfo :=
       (\<lambda>path. probe_output ''Title:          Plan\<newline>Pages: x\<newline>Pages:          3\<newline>'')\<rparr>"

definition old_meta :: metadata where
  "old_meta = \<lparr>total_pages = 1, version = 1, generated_at = ''2023-06-01T12:00:00Z'',
                source_pdf = ''old.pdf''\<rparr>"

definition fresh_world :: world where
  "fresh_world = \<lparr>files = Map.empty, journal = []\<rparr>"

definition used_world :: world where
  "used_world =
     \<lparr>files =
        [''Web'' \<mapsto> Dir [''index.html'' \<mapsto> File (Bytes ''<html>''),
                        ''meta.json'' \<mapsto> File (Json old_meta),
                        ''slides'' \<mapsto> Dir [''slide_001.jpg'' \<mapsto> File (Bytes ''old''),
                                        ''notes.txt'' \<mapsto> File (Bytes ''stale'')]]],
      journal = []\<rparr>"

section \<open>Names and paths\<close>

lemma digit_val_digit_char: "d < 10 \<Longrightarrow> digit_val (digit_char d) = d"
  by (simp add: digit_val_def digit_char_def)

lemma is_digit_digit_char: "d < 10 \<Longrightarrow> is_digit (digit_char d)"
  by (simp add: is_digit_def digit_char_def)

lemma py_str_digits: "c \<in> set (py_str n) \<Longrightarrow> is_digit c"
proof (induction n arbitrary: c rule: py_str.induct)
  case (1 n)
  show ?case
  proof (cases "n < 10")
    case True
    with "1.prems" show ?thesis by (simp add: py_str.simps [of n] is_digit_digit_char)
  next
    case False
    with "1.prems" "1.IH" show ?thesis
      by (auto simp add: py_str.simps [of n] is_digit_digit_char)
  qed
qed

lemma py_str_nonempty: "py_str n \<noteq> []"
  by (subst py_str.simps) simp

lemma digits_value_snoc: "digits_value (ds @ [c]) = 10 * digits_value ds + digit_val c"
  by (simp add: digits_value_def)

lemma digits_value_py_str: "digits_value (py_str n) = n"
proof (induction n rule: py_str.induct)
  case (1 n)
  show ?case
  proof (cases "n < 10")
    case True
    then show ?thesis
      by (simp add: py_str.simps [of n] digits_value_def digit_val_digit_char)
  next
    case False
    with "1.IH" show ?thesis
      by (simp add: py_str.simps [of n] digits_value_snoc digit_val_digit_char)
  qed
qed

lemma foldl_digits_zeros:
  "foldl (\<lambda>a c. 10 * a + digit_val c) 0 (replicate k CHR ''0'') = 0"
  by (induction k) (simp_all add: digit_val_def)

lemma digits_value_zfill: "digits_value (zfill w s) = digits_value s"
  by (simp add: zfill_def digits_value_def foldl_digits_zeros)

lemma is_digit_zero: "is_digit CHR ''0''"
  by (simp add: is_digit_def)

lemma zfill_digits: "\<forall>c\<in>set s. is_digit c \<Longrightarrow> c \<in> set (zfill w s) \<Longrightarrow> is_digit c"
  by (auto simp add: zfill_def is_digit_zero)

lemma format_03d_chars: "c \<in> set (format_03d i) \<Longrightarrow> c = CHR ''-'' \<or> is_digit c"
  by (auto simp add: format_03d_def dest!: zfill_digits [rotated] dest: py_str_digits split: if_splits)

lemma format_03d_inj: "format_03d i = format_03d j \<Longrightarrow> i = j"
proof -
  assume eq: "format_03d i = format_03d j"
  have nd: "\<not> is_digit CHR ''-''" by (simp add: is_digit_def)
  have pos: "\<And>k. 0 \<le> k \<Longrightarrow> CHR ''-'' \<notin> set (format_03d k)"
    using nd by (auto simp add: format_03d_def dest!: zfill_digits [rotated] dest: py_str_digits)
  have neg: "\<And>k. k < 0 \<Longrightarrow> CHR ''-'' \<in> set (format_03d k)"
    by (simp add: format_03d_def)
  have val_pos: "\<And>k. 0 \<le> k \<Longrightarrow> digits_value (format_03d k) = nat k"
    by (simp add: format_03d_def digits_value_zfill digits_value_py_str)
  have val_neg: "\<And>k. k < 0 \<Longrightarrow> digits_value (tl (format_03d k)) = nat (- k)"
    by (simp add: format_03d_def digits_value_zfill digits_value_py_str)
  show "i = j"
  proof (cases "i < 0")
    case True
    then have "j < 0" using eq neg [of i] pos [of j] by (cases "j < 0") auto
    with True val_neg [of i] val_neg [of j] eq show ?thesis by simp
  next
    case False
    then have "\<not> j < 0" using eq neg [of j] pos [of i] by (cases "j < 0") auto
    with False val_pos [of i] val_pos [of j] eq show ?thesis by simp
  qed
qed

lemma slide_filename_inj: "slide_filename i = slide_filename j \<Longrightarrow> i = j"
  by (simp add: slide_filename_def format_03d_inj)

lemma slide_filename_no_slash: "CHR ''/'' \<notin> set (slide_filename i)"
  by (auto simp add: slide_filename_def is_digit_def dest!: format_03d_chars)

lemma slide_filename_nonempty: "slide_filename i \<noteq> []"
  by (simp add: slide_filename_def)

lemma split_from_no_sep: "sep \<notin> set s \<Longrightarrow> split_from sep cur s = [cur @ s]"
  by (induction s arbitrary: cur) auto

lemma split_from_sep:
  "sep \<notin> set s \<Longrightarrow> split_from sep cur (s @ sep # r) = (cur @ s) # split_from sep [] r"
  by (induction s arbitrary: cur) auto

lemma components_OUTPUT_DIR: "components OUTPUT_DIR = [''Web'', ''slides'']"
  by (simp add: components_def OUTPUT_DIR_def py_split_def)

lemma components_META_PATH: "components META_PATH = [''Web'', ''meta.json'']"
  by (simp add: components_def META_PATH_def py_split_def)

lemma slide_path_eq:
  "path_join OUTPUT_DIR (slide_filename i) = ''Web/slides/'' @ slide_filename i"
  by (simp add: path_join_def OUTPUT_DIR_def startswith_def slide_filename_def)

lemma components_slide_path:
  "components (path_join OUTPUT_DIR (slide_filename i)) = [''Web'', ''slides'', slide_filename i]"
proof -
  let ?f = "slide_filename i"
  have 1: "split_from CHR ''/'' [] (''Web'' @ CHR ''/'' # (''slides'' @ CHR ''/'' # ?f))
             = ([] @ ''Web'') # split_from CHR ''/'' [] (''slides'' @ CHR ''/'' # ?f)"
    by (rule split_from_sep) simp
  have 2: "split_from CHR ''/'' [] (''slides'' @ CHR ''/'' # ?f)
             = ([] @ ''slides'') # split_from CHR ''/'' [] ?f"
    by (rule split_from_sep) simp
  have 3: "split_from CHR ''/'' [] ?f = [[] @ ?f]"
    by (rule split_from_no_sep) (rule slide_filename_no_slash)
  have "py_split (''Web/slides/'' @ ?f) CHR ''/'' = [''Web'', ''slides'', ?f]"
    using 1 2 3 by (simp add: py_split_def)
  then show ?thesis
    by (simp add: components_def slide_path_eq slide_filename_nonempty)
qed

section \<open>The run, step by step\<close>

lemma web_entries_with_slides [simp]:
  "web_entries (with_slides T S) = (web_entries T)(''slides'' \<mapsto> Dir S)"
  by (simp add: web_entries_def with_slides_def)

lemma with_slides_twice [simp]: "with_slides (with_slides T S) S' = with_slides T S'"
  by (simp add: with_slides_def web_entries_def)

lemma reset_output_dir_eq:
  "reset_output_dir w =
     (if resettable (files w) then
        (Inr (), w\<lparr>files := with_slides (files w) Map.empty,
                   journal := journal w @
                     (if os_path_exists OUTPUT_DIR w then [Removed_tree OUTPUT_DIR] else []) @
                     [Made_dirs OUTPUT_DIR]\<rparr>)
      else (Inl NotADirectoryError, w))"
  by (simp add: reset_output_dir_def os_path_exists_def shutil_rmtree_def os_makedirs_def
      components_OUTPUT_DIR resettable_def with_slides_def web_entries_def
      split: option.splits node.splits)

lemma write_slide:
  assumes "files_only S"
  shows "write_file [''Web'', ''slides'', f] x (with_slides T S) = Inr (with_slides T (S(f \<mapsto> File x)))"
proof -
  have "\<And>d. S f \<noteq> Some (Dir d)" using assms by (simp add: files_only_def)
  then show ?thesis
    by (simp add: with_slides_def web_entries_def split: option.splits node.splits)
qed

lemma files_only_upd: "files_only S \<Longrightarrow> files_only (S(f \<mapsto> File x))"
  by (simp add: files_only_def)

lemma files_only_empty: "files_only Map.empty"
  by (simp add: files_only_def)

lemma render_page_eq:
  assumes "files w = with_slides T S" and "files_only S"
  shows "render_page e p i w =
     (loop_result e p [i],
      w\<lparr>files := with_slides T (slides_of e p [i] S), journal := journal w @ loop_events e p [i]\<rparr>)"
  using assms
  by (simp add: render_page_def image_save_def components_slide_path write_slide Let_def
      del: write_file.simps split: sum.splits list.splits)

lemma render_pages_eq:
  assumes "files w = with_slides T S" and "files_only S"
  shows "render_pages e p is w =
     (loop_result e p is,
      w\<lparr>files := with_slides T (slides_of e p is S), journal := journal w @ loop_events e p is\<rparr>)"
  using assms
proof (induction "is" arbitrary: w S)
  case Nil
  then show ?case by simp
next
  case (Cons i "is")
  note step = render_page_eq [OF Cons.prems, of e p i]
  show ?case
  proof (cases "convert_from_path e p DPI i i")
    case (Inl err)
    then show ?thesis using step by simp
  next
    case (Inr pages)
    show ?thesis
    proof (cases pages)
      case Nil
      then show ?thesis using step Inr by simp
    next
      case (Cons page rest)
      let ?S = "S(slide_filename i \<mapsto> File (Jpeg JPG_QUALITY (slide_image page)))"
      let ?w = "w\<lparr>files := with_slides T ?S,
                   journal := journal w @ loop_events e p [i]\<rparr>"
      have a: "render_page e p i w = (Inr (), ?w)"
        using step Inr Cons by simp
      have b: "files ?w = with_slides T ?S" by simp
      have c: "files_only ?S" using Cons.prems(2) by (rule files_only_upd)
      have d: "render_pages e p is ?w =
          (loop_result e p is,
           ?w\<lparr>files := with_slides T (slides_of e p is ?S),
               journal := journal ?w @ loop_events e p is\<rparr>)"
        using b c by (rule Cons.IH)
      show ?thesis
        using a d Inr Cons by simp
    qed
  qed
qed

lemma saved_paths_append: "saved_paths (xs @ ys) = saved_paths xs @ saved_paths ys"
  by (induction xs rule: saved_paths.induct) simp_all

lemma rendered_pages_append: "rendered_pages (xs @ ys) = rendered_pages xs @ rendered_pages ys"
  by (induction xs rule: rendered_pages.induct) simp_all

lemma dumps_append: "dumps (xs @ ys) = dumps xs @ dumps ys"
  by (induction xs rule: dumps.induct) simp_all

lemma reset_events_projections:
  "saved_paths (reset_events w) = []" "rendered_pages (reset_events w) = []"
  "dumps (reset_events w) = []"
  by (simp_all add: reset_events_def)

lemma json_dump_eq:
  assumes "files w = with_slides T S"
  shows "json_dump m META_PATH w =
     (if meta_writable T then
        (Inr (), w\<lparr>files := final_tree T S m, journal := journal w @ [Dumped META_PATH m]\<rparr>)
      else (Inl IsADirectoryError, w))"
  using assms
  by (simp add: json_dump_def components_META_PATH meta_writable_def final_tree_def
      with_slides_def split: option.splits node.splits)

lemma convert_pdf_to_slides_eq:
  assumes "get_total_pages e p = Inr n"
  shows "convert_pdf_to_slides e p w =
     (if \<not> resettable (files w) then (Inl NotADirectoryError, w)
      else
        (case loop_result e p [1..n] of
           Inl err \<Rightarrow>
             (Inl err,
              w\<lparr>files := with_slides (files w) (slides_of e p [1..n] Map.empty),
                journal := journal w @ reset_events w @ loop_events e p [1..n]\<rparr>)
         | Inr u \<Rightarrow>
             if meta_writable (files w) then
               (Inr (),
                w\<lparr>files := final_tree (files w) (slides_of e p [1..n] Map.empty)
                     \<lparr>total_pages = n, version = 1, generated_at = strftime_now e,
                      source_pdf = basename p\<rparr>,
                  journal := journal w @ reset_events w @ loop_events e p [1..n] @
                     [Dumped META_PATH \<lparr>total_pages = n, version = 1,
                        generated_at = strftime_now e, source_pdf = basename p\<rparr>]\<rparr>)
             else
               (Inl IsADirectoryError,
                w\<lparr>files := with_slides (files w) (slides_of e p [1..n] Map.empty),
                  journal := journal w @ reset_events w @ loop_events e p [1..n]\<rparr>)))"
proof (cases "resettable (files w)")
  case False
  then show ?thesis
    using assms by (simp add: convert_pdf_to_slides_def reset_output_dir_eq)
next
  case True
  let ?w1 = "w\<lparr>files := with_slides (files w) Map.empty,
                journal := journal w @ reset_events w\<rparr>"
  let ?S = "slides_of e p [1..n] Map.empty"
  let ?w2 = "?w1\<lparr>files := with_slides (files w) ?S,
                  journal := journal ?w1 @ loop_events e p [1..n]\<rparr>"
  have r: "reset_output_dir w = (Inr (), ?w1)"
    using True by (simp add: reset_output_dir_eq reset_events_def)
  have f1: "files ?w1 = with_slides (files w) Map.empty" by simp
  have l: "render_pages e p [1..n] ?w1 = (loop_result e p [1..n], ?w2)"
    using f1 files_only_empty by (rule render_pages_eq)
  have f2: "files ?w2 = with_slides (files w) ?S" by simp
  note d = json_dump_eq [OF f2]
  show ?thesis
    using True assms r l d
    by (simp add: convert_pdf_to_slides_def split: sum.splits)
qed

section \<open>The loop, page by page\<close>

lemma render_failure_None_iff:
  "render_failure e p i = None \<longleftrightarrow> (\<exists>page rest. convert_from_path e p DPI i i = Inr (page # rest))"
  by (simp add: render_failure_def split: sum.splits list.splits)

lemma loop_result_ok:
  "(\<forall>i\<in>set is. render_failure e p i = None) \<Longrightarrow> loop_result e p is = Inr ()"
  by (induction "is") (auto simp add: render_failure_def split: sum.splits list.splits)

lemma loop_result_Inr:
  "loop_result e p is = Inr u \<Longrightarrow> i \<in> set is \<Longrightarrow> render_failure e p i = None"
  by (induction "is") (auto simp add: render_failure_def split: sum.splits list.splits)

lemma loop_result_stops:
  assumes "\<forall>j\<in>set pre. render_failure e p j = None" and "render_failure e p i = Some err"
  shows "loop_result e p (pre @ i # post) = Inl err"
  using assms
  by (induction pre) (auto simp add: render_failure_def split: sum.splits list.splits)

lemma loop_events_stops:
  assumes "\<forall>j\<in>set pre. render_failure e p j = None" and "render_failure e p i = Some err"
  shows "loop_events e p (pre @ i # post) = loop_events e p pre @ [Rendered p DPI i i]"
  using assms
  by (induction pre) (auto simp add: render_failure_def split: sum.splits list.splits)

lemma slides_of_stops:
  assumes "\<forall>j\<in>set pre. render_failure e p j = None" and "render_failure e p i = Some err"
  shows "slides_of e p (pre @ i # post) S = slides_of e p pre S"
  using assms
  by (induction pre arbitrary: S) (auto simp add: render_failure_def split: sum.splits list.splits)

lemma saved_paths_loop_ok:
  "(\<forall>i\<in>set is. render_failure e p i = None) \<Longrightarrow>
   saved_paths (loop_events e p is) = map (\<lambda>i. path_join OUTPUT_DIR (slide_filename i)) is"
  by (induction "is") (auto simp add: render_failure_def split: sum.splits list.splits)

lemma rendered_pages_loop_ok:
  "(\<forall>i\<in>set is. render_failure e p i = None) \<Longrightarrow> rendered_pages (loop_events e p is) = is"
  by (induction "is") (auto simp add: render_failure_def split: sum.splits list.splits)

lemma dumps_loop_events: "dumps (loop_events e p is) = []"
  by (induction "is") (auto split: sum.splits list.splits)

lemma Rendered_in_loop_events:
  "Rendered q d a b \<in> set (loop_events e p is) \<Longrightarrow> q = p \<and> d = DPI \<and> a = b \<and> a \<in> set is"
  by (induction "is") (auto split: sum.splits list.splits)

lemma Saved_in_loop_events:
  "Saved q k im \<in> set (loop_events e p is) \<Longrightarrow>
   k = JPG_QUALITY \<and> (\<exists>page. im = slide_image page)"
  by (induction "is") (auto split: sum.splits list.splits)

lemma dom_slides_of_ok:
  "(\<forall>i\<in>set is. render_failure e p i = None) \<Longrightarrow>
   dom (slides_of e p is S) = dom S \<union> slide_filename ` set is"
  by (induction "is" arbitrary: S) (auto simp add: render_failure_def split: sum.splits list.splits)

lemma slides_of_other:
  "name \<notin> slide_filename ` set is \<Longrightarrow> slides_of e p is S name = S name"
  by (induction "is" arbitrary: S) (auto split: sum.splits list.splits)

lemma slides_of_at:
  assumes "distinct is" and "\<forall>j\<in>set is. render_failure e p j = None" and "i \<in> set is"
    and "convert_from_path e p DPI i i = Inr (page # rest)"
  shows "slides_of e p is S (slide_filename i) = Some (File (Jpeg JPG_QUALITY (slide_image page)))"
  using assms
proof (induction "is" arbitrary: S)
  case Nil
  then show ?case by simp
next
  case (Cons j js)
  from Cons.prems(2) obtain pj rj where pj: "convert_from_path e p DPI j j = Inr (pj # rj)"
    by (auto simp add: render_failure_None_iff)
  show ?case
  proof (cases "i = j")
    case True
    then have "slide_filename i \<notin> slide_filename ` set js"
      using Cons.prems(1) by (auto dest: slide_filename_inj)
    then show ?thesis
      using True pj Cons.prems(4) by (simp add: slides_of_other)
  next
    case False
    then show ?thesis
      using Cons pj by simp
  qed
qed

lemma slides_of_entries_from:
  assumes "\<forall>n x. S n = Some x \<longrightarrow> (\<exists>page. x = File (Jpeg JPG_QUALITY (slide_image page)))"
    and "slides_of e p is S name = Some nd"
  shows "\<exists>page. nd = File (Jpeg JPG_QUALITY (slide_image page))"
  using assms
proof (induction "is" arbitrary: S)
  case Nil
  then show ?case by simp
next
  case (Cons i "is")
  show ?case
  proof (cases "convert_from_path e p DPI i i")
    case (Inl a)
    then show ?thesis using Cons.prems by auto
  next
    case (Inr pages)
    show ?thesis
    proof (cases pages)
      case Nil
      then show ?thesis using Inr Cons.prems by auto
    next
      case (Cons page rest)
      let ?S = "S(slide_filename i \<mapsto> File (Jpeg JPG_QUALITY (slide_image page)))"
      have inv: "\<forall>n x. ?S n = Some x \<longrightarrow> (\<exists>page. x = File (Jpeg JPG_QUALITY (slide_image page)))"
        using Cons.prems(1) by auto
      have "slides_of e p is ?S name = Some nd"
        using Cons.prems(2) Inr Cons by simp
      with inv show ?thesis by (rule Cons.IH)
    qed
  qed
qed

lemma slides_of_entries:
  "slides_of e p is Map.empty name = Some nd \<Longrightarrow>
   \<exists>page. nd = File (Jpeg JPG_QUALITY (slide_image page))"
  by (rule slides_of_entries_from [of Map.empty]) simp_all

lemma slide_image_format:
  "img_size (slide_image page) = (1920, 1080)" "img_mode (slide_image page) = ''RGB''"
  by (simp_all add: slide_image_def resize_def convert_def TARGET_WIDTH_def TARGET_HEIGHT_def Let_def)

section \<open>Sample runs, evaluated\<close>

lemma upto_1_3: "[1..3] = [1, 2, 3 :: int]"
  by (simp add: upto_rec1)

lemma deck_env_pages: "get_total_pages deck_env p = Inr 3"
  by (simp add: get_total_pages_def deck_env_def probe_output_def py_splitlines_def
      is_linebreak_def startswith_def py_split_def py_int_def py_strip_def strip_chars_def is_space_def is_int_space_def
      is_digit_def digits_value_def digit_val_def max_str_digits_def)

lemma corrupt_env_pages: "get_total_pages corrupt_env p = Inl RuntimeError"
  by (simp add: get_total_pages_def corrupt_env_def py_splitlines_def)

lemma broken_env_pages: "get_total_pages broken_env p = Inr 3"
  using deck_env_pages [of p] by (simp add: get_total_pages_def broken_env_def)

lemma blank_env_pages: "get_total_pages blank_env p = Inr 0"
  by (simp add: get_total_pages_def blank_env_def probe_output_def py_splitlines_def
      is_linebreak_def startswith_def py_split_def py_int_def py_strip_def strip_chars_def is_space_def is_int_space_def
      is_digit_def digits_value_def digit_val_def max_str_digits_def)

lemma negative_env_pages: "get_total_pages negative_env p = Inr (- 3)"
  by (simp add: get_total_pages_def negative_env_def probe_output_def py_splitlines_def
      is_linebreak_def startswith_def py_split_def py_int_def py_strip_def strip_chars_def is_space_def is_int_space_def
      is_digit_def digits_value_def digit_val_def max_str_digits_def)

lemma garbled_env_pages: "get_total_pages garbled_env p = Inl ValueError"
  by (simp add: get_total_pages_def garbled_env_def probe_output_def py_splitlines_def
      is_linebreak_def startswith_def py_split_def py_int_def py_strip_def strip_chars_def is_space_def is_int_space_def
      is_digit_def digits_value_def digit_val_def max_str_digits_def)

lemma used_world_shape: "resettable (files used_world)" "meta_writable (files used_world)"
  by (simp_all add: used_world_def resettable_def meta_writable_def web_entries_def)

lemma fresh_world_shape: "resettable (files fresh_world)" "meta_writable (files fresh_world)"
  by (simp_all add: fresh_world_def resettable_def meta_writable_def web_entries_def)

section \<open>The outcomes of a run\<close>

lemma run_outcomes:
  assumes "convert_pdf_to_slides e p w = (r, w')"
  obtains
    (probe_failed) err where "get_total_pages e p = Inl err" and "r = Inl err" and "w' = w"
  | (reset_failed) n where "get_total_pages e p = Inr n" and "\<not> resettable (files w)"
      and "r = Inl NotADirectoryError" and "w' = w"
  | (render_failed) n err where "get_total_pages e p = Inr n" and "resettable (files w)"
      and "loop_result e p [1..n] = Inl err" and "r = Inl err"
      and "w' = w\<lparr>files := with_slides (files w) (slides_of e p [1..n] Map.empty),
                    journal := journal w @ reset_events w @ loop_events e p [1..n]\<rparr>"
  | (dump_failed) n where "get_total_pages e p = Inr n" and "resettable (files w)"
      and "loop_result e p [1..n] = Inr ()" and "\<not> meta_writable (files w)"
      and "r = Inl IsADirectoryError"
      and "w' = w\<lparr>files := with_slides (files w) (slides_of e p [1..n] Map.empty),
                    journal := journal w @ reset_events w @ loop_events e p [1..n]\<rparr>"
  | (finished) n where "get_total_pages e p = Inr n" and "resettable (files w)"
      and "loop_result e p [1..n] = Inr ()" and "meta_writable (files w)"
      and "r = Inr ()"
      and "w' = w\<lparr>files := final_tree (files w) (slides_of e p [1..n] Map.empty)
                       \<lparr>total_pages = n, version = 1, generated_at = strftime_now e,
                        source_pdf = basename p\<rparr>,
                    journal := journal w @ reset_events w @ loop_events e p [1..n] @
                       [Dumped META_PATH \<lparr>total_pages = n, version = 1,
                          generated_at = strftime_now e, source_pdf = basename p\<rparr>]\<rparr>"
proof (cases "get_total_pages e p")
  case (Inl err)
  then have "convert_pdf_to_slides e p w = (Inl err, w)"
    by (simp add: convert_pdf_to_slides_def)
  with assms Inl show ?thesis by (auto intro: probe_failed)
next
  case (Inr n)
  note eq = convert_pdf_to_slides_eq [OF Inr, of w]
  show ?thesis
  proof (cases "resettable (files w)")
    case False
    with eq assms Inr show ?thesis by (auto intro: reset_failed)
  next
    case True
    show ?thesis
    proof (cases "loop_result e p [1..n]")
      case (Inl err)
      with eq assms Inr True show ?thesis by (auto intro: render_failed)
    next
      case (Inr u)
      then have ok: "loop_result e p [1..n] = Inr ()" by simp
      show ?thesis
      proof (cases "meta_writable (files w)")
        case True
        with eq assms \<open>get_total_pages e p = Inr n\<close> \<open>resettable (files w)\<close> ok
        show ?thesis by (auto intro: finished)
      next
        case False
        with eq assms \<open>get_total_pages e p = Inr n\<close> \<open>resettable (files w)\<close> ok
        show ?thesis by (auto intro: dump_failed)
      qed
    qed
  qed
qed

subsection \<open>The nodes at the paths of the script\<close>

lemma lookup_META_PATH: "lookup T (components META_PATH) = web_entries T ''meta.json''"
  by (simp add: components_META_PATH web_entries_def split: option.splits node.splits)

lemma lookup_META_PATH_with_slides:
  "lookup (with_slides T S) (components META_PATH) = lookup T (components META_PATH)"
  by (simp add: lookup_META_PATH)

lemma lookup_META_PATH_final:
  "lookup (final_tree T S m) (components META_PATH) = Some (File (Json m))"
  by (simp add: components_META_PATH final_tree_def)

lemma lookup_OUTPUT_DIR_final:
  "lookup (final_tree T S m) (components OUTPUT_DIR) = Some (Dir S)"
  by (simp add: components_OUTPUT_DIR final_tree_def)

lemma lookup_slide_with_slides:
  "lookup (with_slides T S) (components (path_join OUTPUT_DIR (slide_filename i))) =
     S (slide_filename i)"
  by (simp add: components_slide_path with_slides_def split: option.splits node.splits)

lemma deck_run:
  "convert_pdf_to_slides deck_env p used_world =
     (Inr (),
      \<lparr>files = final_tree (files used_world) (slides_of deck_env p [1..3] Map.empty)
          \<lparr>total_pages = 3, version = 1, generated_at = ''2024-01-01T00:00:00Z'',
           source_pdf = basename p\<rparr>,
       journal =
         [Removed_tree OUTPUT_DIR, Made_dirs OUTPUT_DIR,
          Rendered p DPI 1 1,
          Saved (path_join OUTPUT_DIR (slide_filename 1)) JPG_QUALITY (slide_image (a4_page 1)),
          Rendered p DPI 2 2,
          Saved (path_join OUTPUT_DIR (slide_filename 2)) JPG_QUALITY (slide_image (a4_page 2)),
          Rendered p DPI 3 3,
          Saved (path_join OUTPUT_DIR (slide_filename 3)) JPG_QUALITY (slide_image (a4_page 3)),
          Dumped META_PATH
            \<lparr>total_pages = 3, version = 1, generated_at = ''2024-01-01T00:00:00Z'',
             source_pdf = basename p\<rparr>]\<rparr>)"
proof -
  have l: "loop_result deck_env p [1..3] = Inr ()"
    by (simp add: deck_env_def upto_1_3)
  have ev: "loop_events deck_env p [1..3] =
      [Rendered p DPI 1 1,
       Saved (path_join OUTPUT_DIR (slide_filename 1)) JPG_QUALITY (slide_image (a4_page 1)),
       Rendered p DPI 2 2,
       Saved (path_join OUTPUT_DIR (slide_filename 2)) JPG_QUALITY (slide_image (a4_page 2)),
       Rendered p DPI 3 3,
       Saved (path_join OUTPUT_DIR (slide_filename 3)) JPG_QUALITY (slide_image (a4_page 3))]"
    by (simp add: deck_env_def upto_1_3)
  have x: "os_path_exists OUTPUT_DIR used_world"
    by (simp add: os_path_exists_def components_OUTPUT_DIR used_world_def)
  have t: "strftime_now deck_env = ''2024-01-01T00:00:00Z''"
    by (simp add: deck_env_def)
  have j: "journal used_world = []"
    by (simp add: used_world_def)
  show ?thesis
    unfolding convert_pdf_to_slides_eq [OF deck_env_pages]
    by (simp add: used_world_shape l ev x t j reset_events_def)
qed

lemma pages_ok_upto:
  "(\<forall>i\<in>{1..n}. \<exists>page rest. convert_from_path e p DPI i i = Inr (page # rest)) \<longleftrightarrow>
   (\<forall>i\<in>set [1..n]. render_failure e p i = None)"
  by (simp add: render_failure_None_iff)

lemma blank_run:
  "convert_pdf_to_slides blank_env p used_world =
     (Inr (),
      \<lparr>files = final_tree (files used_world) Map.empty
          \<lparr>total_pages = 0, version = 1, generated_at = ''2024-01-01T00:00:00Z'',
           source_pdf = basename p\<rparr>,
       journal =
         [Removed_tree OUTPUT_DIR, Made_dirs OUTPUT_DIR,
          Dumped META_PATH
            \<lparr>total_pages = 0, version = 1, generated_at = ''2024-01-01T00:00:00Z'',
             source_pdf = basename p\<rparr>]\<rparr>)"
proof -
  have x: "os_path_exists OUTPUT_DIR used_world"
    by (simp add: os_path_exists_def components_OUTPUT_DIR used_world_def)
  have t: "strftime_now blank_env = ''2024-01-01T00:00:00Z''"
    by (simp add: blank_env_def deck_env_def)
  have j: "journal used_world = []"
    by (simp add: used_world_def)
  show ?thesis
    unfolding convert_pdf_to_slides_eq [OF blank_env_pages]
    by (simp add: used_world_shape x t j reset_events_def)
qed

lemma card_slide_filenames: "card (slide_filename ` {1..n}) = nat n"
proof -
  have "inj_on slide_filename {1..n}"
    by (rule inj_onI) (rule slide_filename_inj)
  then have "card (slide_filename ` {1..n}) = card {1..n}"
    by (rule card_image)
  then show ?thesis by simp
qed



lemma negative_run:
  "convert_pdf_to_slides negative_env p fresh_world =
     (Inr (),
      \<lparr>files = final_tree (files fresh_world) Map.empty
          \<lparr>total_pages = - 3, version = 1, generated_at = ''2024-01-01T00:00:00Z'',
           source_pdf = basename p\<rparr>,
       journal =
         [Made_dirs OUTPUT_DIR,
          Dumped META_PATH
            \<lparr>total_pages = - 3, version = 1, generated_at = ''2024-01-01T00:00:00Z'',
             source_pdf = basename p\<rparr>]\<rparr>)"
proof -
  have x: "\<not> os_path_exists OUTPUT_DIR fresh_world"
    by (simp add: os_path_exists_def components_OUTPUT_DIR fresh_world_def)
  have t: "strftime_now negative_env = ''2024-01-01T00:00:00Z''"
    by (simp add: negative_env_def deck_env_def)
  have j: "journal fresh_world = []"
    by (simp add: fresh_world_def)
  show ?thesis
    unfolding convert_pdf_to_slides_eq [OF negative_env_pages]
    by (simp add: fresh_world_shape x t j reset_events_def)
qed

lemma reset_output_dir_ok:
  assumes "reset_output_dir w = (Inr u, w1)"
  shows "resettable (files w)"
    and "w1 = w\<lparr>files := with_slides (files w) Map.empty,
                   journal := journal w @ reset_events w\<rparr>"
  using assms by (simp_all add: reset_output_dir_eq reset_events_def split: if_splits)

lemma slides_of_absent:
  assumes "\<forall>j\<in>set is. j \<noteq> i"
  shows "slides_of e p is Map.empty (slide_filename i) = None"
proof -
  have "slide_filename i \<notin> slide_filename ` set is"
    using assms by (auto dest: slide_filename_inj)
  then show ?thesis by (simp add: slides_of_other)
qed

lemma broken_env_render:
  "render_failure broken_env p 1 = None" "render_failure broken_env p 2 = Some PDFSyntaxError"
  by (simp_all add: render_failure_def broken_env_def deck_env_def)



subsection \<open>A later reading of the clock\<close>

lemma get_total_pages_clock [simp]:
  "get_total_pages (e\<lparr>strftime_now := t\<rparr>) p = get_total_pages e p"
  by (simp add: get_total_pages_def)

lemma loop_result_clock [simp]:
  "loop_result (e\<lparr>strftime_now := t\<rparr>) p is = loop_result e p is"
  by (induction "is") (simp_all split: sum.splits list.splits)

lemma loop_events_clock [simp]:
  "loop_events (e\<lparr>strftime_now := t\<rparr>) p is = loop_events e p is"
  by (induction "is") (simp_all split: sum.splits list.splits)

lemma slides_of_clock [simp]:
  "slides_of (e\<lparr>strftime_now := t\<rparr>) p is S = slides_of e p is S"
  by (induction "is" arbitrary: S) (simp_all split: sum.splits list.splits)

lemma web_entries_final_tree:
  "web_entries (final_tree T S m) =
     (web_entries T)(''slides'' \<mapsto> Dir S, ''meta.json'' \<mapsto> File (Json m))"
  by (simp add: web_entries_def final_tree_def)

lemma final_tree_shape:
  "resettable (final_tree T S m)" "meta_writable (final_tree T S m)"
  by (simp_all add: resettable_def meta_writable_def web_entries_final_tree)
     (simp add: final_tree_def)

lemma final_tree_again: "final_tree (final_tree T S m) S' m' = final_tree T S' m'"
proof -
  have "(web_entries T)(''slides'' \<mapsto> Dir S, ''meta.json'' \<mapsto> File (Json m),
          ''slides'' \<mapsto> Dir S', ''meta.json'' \<mapsto> File (Json m')) =
        (web_entries T)(''slides'' \<mapsto> Dir S', ''meta.json'' \<mapsto> File (Json m'))"
    by (rule ext) simp
  then show ?thesis
    by (simp add: final_tree_def [of "final_tree T S m"] web_entries_final_tree)
       (simp add: final_tree_def)
qed

lemma remove_tree_final_tree:
  "remove_tree (components OUTPUT_DIR) (final_tree T S m) =
     Inr (T(''Web'' \<mapsto> Dir ((web_entries T)(''slides'' := None, ''meta.json'' \<mapsto> File (Json m)))))"
proof -
  have "((web_entries T)(''slides'' \<mapsto> Dir S, ''meta.json'' \<mapsto> File (Json m)))(''slides'' := None) =
        (web_entries T)(''slides'' := None, ''meta.json'' \<mapsto> File (Json m))"
    by (rule ext) simp
  then show ?thesis
    by (simp add: components_OUTPUT_DIR final_tree_def)
qed

lemma rewrite_meta_final_tree:
  "write_file (components META_PATH) (Json m') (final_tree T S m) = Inr (final_tree T S m')"
  by (simp add: components_META_PATH final_tree_def)

lemma os_path_exists_final_tree:
  "files w = final_tree T S m \<Longrightarrow> os_path_exists OUTPUT_DIR w"
  by (simp add: os_path_exists_def lookup_OUTPUT_DIR_final)

section \<open>Reading the page count\<close>

lemma digit_not_space: "is_digit c \<Longrightarrow> \<not> is_space c" "is_digit c \<Longrightarrow> \<not> is_int_space c"
  by (auto simp add: is_digit_def is_space_def is_int_space_def)

lemma space_is_space: "is_space CHR '' ''" "is_int_space CHR '' ''"
  by (simp_all add: is_space_def is_int_space_def)

lemma strip_chars_digits:
  assumes "\<forall>c\<in>set s. \<not> P c" and "P CHR '' ''"
  shows "strip_chars P (replicate k CHR '' '' @ s) = s"
proof (cases "s = []")
  case True
  then show ?thesis
    using assms(2) by (simp add: strip_chars_def dropWhile_append2)
next
  case False
  have a: "dropWhile P (replicate k CHR '' '' @ s) = dropWhile P s"
    by (rule dropWhile_append2) (simp add: assms(2))
  have "\<not> P (hd s)"
    using False assms(1) by simp
  then have b: "dropWhile P s = s"
    by (simp add: dropWhile_eq_self_iff)
  have "\<not> P (hd (rev s))"
    using False assms(1) by (simp add: hd_rev)
  then have c: "dropWhile P (rev s) = rev s"
    by (simp add: dropWhile_eq_self_iff)
  show ?thesis
    by (simp add: strip_chars_def a b c)
qed

lemma py_strip_digits:
  assumes "\<forall>c\<in>set s. is_digit c"
  shows "py_strip (replicate k CHR '' '' @ s) = s"
  unfolding py_strip_def using assms
  by (intro strip_chars_digits) (simp_all add: digit_not_space space_is_space)

lemma int_body_digits_True: "\<forall>c\<in>set s. is_digit c \<Longrightarrow> int_body True s = Some s"
  by (induction s) simp_all

lemma int_body_digits: "\<forall>c\<in>set s. is_digit c \<Longrightarrow> s \<noteq> [] \<Longrightarrow> int_body b s = Some s"
  by (cases s) (simp_all add: int_body_digits_True)

lemma py_int_py_str:
  assumes "length (py_str n) \<le> max_str_digits"
  shows "py_int (py_str n) = Some (int n)"
proof -
  let ?s = "py_str n"
  have d: "\<forall>c\<in>set ?s. is_digit c" by (simp add: py_str_digits)
  have ne: "?s \<noteq> []" by (rule py_str_nonempty)
  have "\<forall>c\<in>set ?s. \<not> is_int_space c"
    using d by (simp add: digit_not_space)
  then have st: "strip_chars is_int_space ?s = ?s"
    using strip_chars_digits [of ?s is_int_space 0] by (simp add: space_is_space)
  have "is_digit (hd ?s)" using d ne by simp
  then have sign: "hd ?s \<noteq> CHR ''-''" "hd ?s \<noteq> CHR ''+''"
    by (auto simp add: is_digit_def)
  have body: "int_body False ?s = Some ?s"
    using d ne by (rule int_body_digits)
  show ?thesis
    using assms by (simp add: py_int_def st sign body digits_value_py_str Let_def)
qed

lemma split_from_nonempty: "split_from sep cur s \<noteq> []"
  by (induction s arbitrary: cur) simp_all

lemma py_split_Pages:
  assumes "startswith l ''Pages:''"
  shows "\<exists>field rest. py_split l CHR '':'' = ''Pages'' # field # rest"
proof -
  from assms have "take (length ''Pages:'') l = ''Pages:''"
    by (simp only: startswith_def)
  then have "l = ''Pages:'' @ drop (length ''Pages:'') l"
    by (metis append_take_drop_id)
  then obtain t where l: "l = ''Pages'' @ CHR '':'' # t"
    by (metis append_Cons append_Nil)
  have "py_split l CHR '':'' = ([] @ ''Pages'') # split_from CHR '':'' [] t"
    unfolding py_split_def l by (rule split_from_sep) simp
  moreover obtain field rest where "split_from CHR '':'' [] t = field # rest"
    using split_from_nonempty [of "CHR '':''" "[]" t] by (cases "split_from CHR '':'' [] t") auto
  ultimately show ?thesis by simp
qed

lemma scan_lines_none:
  "(\<forall>l\<in>set ls. \<not> startswith l ''Pages:'') \<Longrightarrow> scan_lines ls = Inl RuntimeError"
  by (induction ls) simp_all

lemma scan_lines_skip:
  "(\<forall>l\<in>set before. \<not> startswith l ''Pages:'') \<Longrightarrow>
   scan_lines (before @ ls) = scan_lines ls"
  by (induction before) simp_all

lemma scan_lines_first:
  assumes "startswith l ''Pages:''" and "py_split l CHR '':'' = ''Pages'' # field # rest"
  shows "scan_lines (l # after) =
     (case py_int (py_strip field) of None \<Rightarrow> Inl ValueError | Some n \<Rightarrow> Inr n)"
  using assms by simp

lemma scan_lines_some:
  assumes "l \<in> set ls" and "startswith l ''Pages:''"
  shows "scan_lines ls \<noteq> Inl RuntimeError"
  using assms
proof (induction ls)
  case Nil
  then show ?case by simp
next
  case (Cons a ls)
  show ?case
  proof (cases "startswith a ''Pages:''")
    case True
    then obtain field rest where "py_split a CHR '':'' = ''Pages'' # field # rest"
      using py_split_Pages by blast
    with True show ?thesis by (simp split: option.splits)
  next
    case False
    with Cons show ?thesis by auto
  qed
qed

lemma Pages_line:
  "startswith (''Pages:'' @ t) ''Pages:''"
  "CHR '':'' \<notin> set t \<Longrightarrow> py_split (''Pages:'' @ t) CHR '':'' = [''Pages'', t]"
proof -
  show "startswith (''Pages:'' @ t) ''Pages:''" by (simp add: startswith_def)
  assume t: "CHR '':'' \<notin> set t"
  have "split_from CHR '':'' [] (''Pages'' @ CHR '':'' # t) = ([] @ ''Pages'') # split_from CHR '':'' [] t"
    by (rule split_from_sep) simp
  then show "py_split (''Pages:'' @ t) CHR '':'' = [''Pages'', t]"
    using t by (simp add: py_split_def split_from_no_sep)
qed

lemma scan_lines_count:
  assumes "length (py_str n) \<le> max_str_digits"
  shows "scan_lines ((''Pages:'' @ replicate k CHR '' '' @ py_str n) # after) = Inr (int n)"
proof -
  let ?t = "replicate k CHR '' '' @ py_str n"
  have "\<not> is_digit CHR '':''" by (simp add: is_digit_def)
  then have nc: "CHR '':'' \<notin> set ?t"
    by (auto dest: py_str_digits)
  have st: "py_strip ?t = py_str n"
    by (rule py_strip_digits) (simp add: py_str_digits)
  show ?thesis
    using Pages_line(1) [of ?t] Pages_line(2) [OF nc] py_int_py_str [OF assms]
    by (simp add: st)
qed

section \<open>One slide per page\<close>



section \<open>The metadata document\<close>

text \<open>
  C2.  The script records as \<open>total_pages\<close> the number that the probe returned; it does
  not count the files it has saved.  The two differ when the probe prints a negative
  number: the loop then makes no iteration and the run ends well.  Here the probe prints
  \<^verbatim>\<open>Pages: -3\<close>: no slide is saved and the metadata document says \<open>total_pages = -3\<close>.
\<close>

theorem metadata_total_pages_counterexample:
  "fst (convert_pdf_to_slides negative_env ''deck.pdf'' fresh_world) = Inr () \<and>
   lookup (files (snd (convert_pdf_to_slides negative_env ''deck.pdf'' fresh_world)))
     (components META_PATH) =
     Some (File (Json \<lparr>total_pages = - 3, version = 1,
        generated_at = ''2024-01-01T00:00:00Z'', source_pdf = ''deck.pdf''\<rparr>)) \<and>
   saved_paths (journal (snd (convert_pdf_to_slides negative_env ''deck.pdf'' fresh_world))) = [] \<and>
   - 3 \<noteq> int (length (saved_paths
       (journal (snd (convert_pdf_to_slides negative_env ''deck.pdf'' fresh_world)))))"
  by (simp add: negative_run lookup_META_PATH_final basename_def)

text \<open>
  C2, amended.  For every run that ends well and whose probed page count \<open>n\<close> is not
  negative, the metadata document is written as the last operation of the run, and it
  records: as \<open>total_pages\<close> the number of slide files that the run saved, which is also
  the number of entries of the output directory and equals \<open>n\<close>; as \<open>version\<close> the
  integer 1; as \<open>source_pdf\<close> the base name of the input path.
\<close>

theorem metadata_of_completed_run:
  assumes "get_total_pages e pdf_path = Inr n"
    and "0 \<le> n"
    and "convert_pdf_to_slides e pdf_path w = (Inr (), w')"
    and "journal w' = journal w @ evs"
  shows "\<exists>m S. lookup (files w') (components META_PATH) = Some (File (Json m)) \<and>
           dumps evs = [(META_PATH, m)] \<and> last evs = Dumped META_PATH m \<and>
           lookup (files w') (components OUTPUT_DIR) = Some (Dir S) \<and>
           total_pages m = int (length (saved_paths evs)) \<and>
           total_pages m = int (card (dom S)) \<and>
           total_pages m = n \<and>
           version m = 1 \<and>
           source_pdf m = basename pdf_path"
  using assms(3)
proof (cases rule: run_outcomes)
  case (finished k)
  with assms(1) have k: "k = n" by simp
  let ?S = "slides_of e pdf_path [1..n] Map.empty"
  let ?m = "\<lparr>total_pages = n, version = 1, generated_at = strftime_now e,
             source_pdf = basename pdf_path\<rparr>"
  have ok: "\<forall>i\<in>set [1..n]. render_failure e pdf_path i = None"
    using finished(3) k by (auto dest: loop_result_Inr)
  have evs: "evs = reset_events w @ loop_events e pdf_path [1..n] @ [Dumped META_PATH ?m]"
    using finished(6) assms(4) k by simp
  have saved: "saved_paths evs = map (\<lambda>i. path_join OUTPUT_DIR (slide_filename i)) [1..n]"
    by (simp add: evs saved_paths_append reset_events_projections saved_paths_loop_ok [OF ok])
  have len: "int (length (saved_paths evs)) = n"
    unfolding saved using assms(2) by simp
  have dom: "dom ?S = slide_filename ` {1..n}"
    using dom_slides_of_ok [OF ok, of Map.empty] by simp
  have card: "int (card (dom ?S)) = n"
    unfolding dom card_slide_filenames using assms(2) by simp
  have d: "dumps evs = [(META_PATH, ?m)]"
    by (simp add: evs dumps_append reset_events_projections dumps_loop_events)
  have l: "last evs = Dumped META_PATH ?m"
    by (simp add: evs)
  have meta: "lookup (files w') (components META_PATH) = Some (File (Json ?m))"
    using finished(6) k by (simp add: lookup_META_PATH_final)
  have dir: "lookup (files w') (components OUTPUT_DIR) = Some (Dir ?S)"
    using finished(6) k by (simp add: lookup_OUTPUT_DIR_final)
  from meta d l dir len card show ?thesis
    by (intro exI [of _ ?m] exI [of _ ?S]) simp
qed simp_all

theorem metadata_of_completed_run_witness:
  "get_total_pages deck_env ''talks/deck.pdf'' = Inr 3 \<and> (0::int) \<le> 3 \<and>
   fst (convert_pdf_to_slides deck_env ''talks/deck.pdf'' used_world) = Inr () \<and>
   lookup (files (snd (convert_pdf_to_slides deck_env ''talks/deck.pdf'' used_world)))
     (components META_PATH) =
     Some (File (Json \<lparr>total_pages = 3, version = 1,
        generated_at = ''2024-01-01T00:00:00Z'', source_pdf = ''deck.pdf''\<rparr>)) \<and>
   length (saved_paths
     (journal (snd (convert_pdf_to_slides deck_env ''talks/deck.pdf'' used_world)))) = 3"
proof -
  let ?run = "convert_pdf_to_slides deck_env ''talks/deck.pdf'' used_world"
  have h1: "get_total_pages deck_env ''talks/deck.pdf'' = Inr 3"
    by (rule deck_env_pages)
  have h2: "(0::int) \<le> 3"
    by simp
  have h3: "?run = (Inr (), snd ?run)"
    by (simp add: deck_run)
  have h4: "journal (snd ?run) = journal used_world @ journal (snd ?run)"
    by (simp add: used_world_def)
  have c1: "fst ?run = Inr ()"
    by (simp add: deck_run)
  have c2: "basename ''talks/deck.pdf'' = ''deck.pdf''"
    by (simp add: basename_def)
  have c3: "lookup (files (snd ?run)) (components META_PATH) =
     Some (File (Json \<lparr>total_pages = 3, version = 1,
        generated_at = ''2024-01-01T00:00:00Z'', source_pdf = ''deck.pdf''\<rparr>))"
    by (simp add: deck_run lookup_META_PATH_final c2)
  from metadata_of_completed_run [OF h1 h2 h3 h4] obtain m where
    "lookup (files (snd ?run)) (components META_PATH) = Some (File (Json m))"
    "total_pages m = int (length (saved_paths (journal (snd ?run))))"
    by blast
  with c3 have "length (saved_paths (journal (snd ?run))) = 3"
    by simp
  with h1 c1 c3 show ?thesis
    by simp
qed

section \<open>A page that cannot be rendered\<close>

text \<open>
  C3.  Let the probe return \<open>n\<close>, let the reset of the output directory succeed, and let
  page \<open>i\<close> with \<open>1 \<le> i \<le> n\<close> be the first page that fails to render, with the
  exception \<open>err\<close>.  Then the run ends with \<open>err\<close>.  After the reset the renderer was
  called once for each of the pages \<open>1, ..., i\<close>, in this order, and for no other page:
  page \<open>i\<close> was not tried again and no later page was tried.  The slides of the pages
  before \<open>i\<close> were saved and are in the tree that the run leaves; no slide of page \<open>i\<close> or
  of a later page is there.  No metadata document was written: the path of the metadata
  file holds what it held before the run.
\<close>

theorem render_failure_is_fatal:
  assumes "get_total_pages e pdf_path = Inr n"
    and "reset_output_dir w = (Inr (), w1)"
    and "1 \<le> i" and "i \<le> n"
    and "\<forall>j\<in>{1..<i}. render_failure e pdf_path j = None"
    and "render_failure e pdf_path i = Some err"
  shows "\<exists>w' evs.
           convert_pdf_to_slides e pdf_path w = (Inl err, w') \<and>
           journal w' = journal w1 @ evs \<and>
           rendered_pages evs = [1..i] \<and>
           saved_paths evs = map (\<lambda>j. path_join OUTPUT_DIR (slide_filename j)) [1..i - 1] \<and>
           dumps evs = [] \<and>
           (\<forall>j\<in>{1..<i}. \<exists>page rest.
              convert_from_path e pdf_path DPI j j = Inr (page # rest) \<and>
              lookup (files w') (components (path_join OUTPUT_DIR (slide_filename j))) =
                Some (File (Jpeg JPG_QUALITY (slide_image page)))) \<and>
           (\<forall>j. i \<le> j \<longrightarrow>
              lookup (files w') (components (path_join OUTPUT_DIR (slide_filename j))) = None) \<and>
           lookup (files w') (components META_PATH) = lookup (files w) (components META_PATH)"
proof -
  let ?pre = "[1..i - 1]"
  let ?S = "slides_of e pdf_path ?pre Map.empty"
  let ?evs = "loop_events e pdf_path ?pre @ [Rendered pdf_path DPI i i]"
  let ?w' = "w\<lparr>files := with_slides (files w) ?S,
               journal := journal w @ reset_events w @ ?evs\<rparr>"
  have split: "[1..n] = ?pre @ i # [i + 1..n]"
    using assms(3,4) by (rule upto_split3)
  have ok: "\<forall>j\<in>set ?pre. render_failure e pdf_path j = None"
    using assms(5) by simp
  note r = reset_output_dir_ok [OF assms(2)]
  have res: "loop_result e pdf_path [1..n] = Inl err"
    unfolding split using ok assms(6) by (rule loop_result_stops)
  have ev: "loop_events e pdf_path [1..n] = ?evs"
    unfolding split using ok assms(6) by (rule loop_events_stops)
  have sl: "slides_of e pdf_path [1..n] Map.empty = ?S"
    unfolding split using ok assms(6) by (rule slides_of_stops)
  have run: "convert_pdf_to_slides e pdf_path w = (Inl err, ?w')"
    unfolding convert_pdf_to_slides_eq [OF assms(1)] using r(1) by (simp add: res ev sl)
  have j: "journal ?w' = journal w1 @ ?evs"
    using r(2) by simp
  have rp: "rendered_pages ?evs = [1..i]"
    using assms(3) by (simp add: rendered_pages_append rendered_pages_loop_ok [OF ok] upto_rec2)
  have sp: "saved_paths ?evs = map (\<lambda>j. path_join OUTPUT_DIR (slide_filename j)) ?pre"
    by (simp add: saved_paths_append saved_paths_loop_ok [OF ok])
  have du: "dumps ?evs = []"
    by (simp add: dumps_append dumps_loop_events)
  have before: "\<forall>j\<in>{1..<i}. \<exists>page rest.
      convert_from_path e pdf_path DPI j j = Inr (page # rest) \<and>
      lookup (files ?w') (components (path_join OUTPUT_DIR (slide_filename j))) =
        Some (File (Jpeg JPG_QUALITY (slide_image page)))"
  proof
    fix j assume jj: "j \<in> {1..<i}"
    with assms(5) have "render_failure e pdf_path j = None" by blast
    then obtain page rest where pg: "convert_from_path e pdf_path DPI j j = Inr (page # rest)"
      by (auto simp add: render_failure_None_iff)
    have "?S (slide_filename j) = Some (File (Jpeg JPG_QUALITY (slide_image page)))"
      using jj by (intro slides_of_at [OF _ ok _ pg]) simp_all
    with pg show "\<exists>page rest.
      convert_from_path e pdf_path DPI j j = Inr (page # rest) \<and>
      lookup (files ?w') (components (path_join OUTPUT_DIR (slide_filename j))) =
        Some (File (Jpeg JPG_QUALITY (slide_image page)))"
      by (simp add: lookup_slide_with_slides)
  qed
  have after: "\<forall>j. i \<le> j \<longrightarrow>
      lookup (files ?w') (components (path_join OUTPUT_DIR (slide_filename j))) = None"
    by (simp add: lookup_slide_with_slides slides_of_absent)
  have meta: "lookup (files ?w') (components META_PATH) = lookup (files w) (components META_PATH)"
    by (simp add: lookup_META_PATH_with_slides)
  from run j rp sp du before after meta show ?thesis
    by blast
qed

theorem render_failure_is_fatal_witness:
  "get_total_pages broken_env ''talks/deck.pdf'' = Inr 3 \<and>
   fst (reset_output_dir used_world) = Inr () \<and>
   (1::int) \<le> 2 \<and> (2::int) \<le> 3 \<and>
   render_failure broken_env ''talks/deck.pdf'' 1 = None \<and>
   render_failure broken_env ''talks/deck.pdf'' 2 = Some PDFSyntaxError \<and>
   fst (convert_pdf_to_slides broken_env ''talks/deck.pdf'' used_world) = Inl PDFSyntaxError \<and>
   lookup (files (snd (convert_pdf_to_slides broken_env ''talks/deck.pdf'' used_world)))
     (components (path_join OUTPUT_DIR (slide_filename 1))) =
     Some (File (Jpeg JPG_QUALITY (slide_image (a4_page 1)))) \<and>
   lookup (files (snd (convert_pdf_to_slides broken_env ''talks/deck.pdf'' used_world)))
     (components (path_join OUTPUT_DIR (slide_filename 2))) = None \<and>
   lookup (files (snd (convert_pdf_to_slides broken_env ''talks/deck.pdf'' used_world)))
     (components META_PATH) = Some (File (Json old_meta))"
proof -
  let ?p = "''talks/deck.pdf''"
  let ?run = "convert_pdf_to_slides broken_env ?p used_world"
  have h1: "get_total_pages broken_env ?p = Inr 3"
    by (rule broken_env_pages)
  have h2: "reset_output_dir used_world = (Inr (), snd (reset_output_dir used_world))"
    by (simp add: reset_output_dir_eq used_world_shape)
  have h3: "(1::int) \<le> 2" and h4: "(2::int) \<le> 3"
    by simp_all
  have h5: "\<forall>j\<in>{1..<2}. render_failure broken_env ?p j = None"
  proof 
    fix j :: int assume "j \<in> {1..<2}"
    then have "j = 1" by simp
    then show "render_failure broken_env ?p j = None" by (simp add: broken_env_render)
  qed
  have h6: "render_failure broken_env ?p 2 = Some PDFSyntaxError"
    by (rule broken_env_render)
  have c0: "fst (reset_output_dir used_world) = Inr ()"
    by (simp add: reset_output_dir_eq used_world_shape)
  have c1: "convert_from_path broken_env ?p DPI 1 1 = Inr [a4_page 1]"
    by (simp add: broken_env_def deck_env_def)
  have c2: "lookup (files used_world) (components META_PATH) = Some (File (Json old_meta))"
    by (simp add: used_world_def components_META_PATH)
  from render_failure_is_fatal [OF h1 h2 h3 h4 h5 h6] obtain w' where
    run: "?run = (Inl PDFSyntaxError, w')"
    and before: "\<forall>j\<in>{1..<2}. \<exists>page rest.
      convert_from_path broken_env ?p DPI j j = Inr (page # rest) \<and>
      lookup (files w') (components (path_join OUTPUT_DIR (slide_filename j))) =
        Some (File (Jpeg JPG_QUALITY (slide_image page)))"
    and after: "\<forall>j. 2 \<le> j \<longrightarrow>
      lookup (files w') (components (path_join OUTPUT_DIR (slide_filename j))) = None"
    and meta: "lookup (files w') (components META_PATH) = lookup (files used_world) (components META_PATH)"
    by blast
  have "(1::int) \<in> {1..<2}" by simp
  with before c1 have s1: "lookup (files w') (components (path_join OUTPUT_DIR (slide_filename 1))) =
     Some (File (Jpeg JPG_QUALITY (slide_image (a4_page 1))))"
    by fastforce
  from after have s2: "lookup (files w') (components (path_join OUTPUT_DIR (slide_filename 2))) = None"
    by simp
  have c3: "render_failure broken_env ?p 1 = None"
    by (rule broken_env_render)
  from run s1 s2 meta c2 h1 c3 h6 c0 show ?thesis
    by simp
qed

section \<open>Failure of the probe\<close>

text \<open>
  C4.  When the page-count probe raises, the run ends with that exception and the state
  is the one it started from: the tree is unchanged, and the journal shows that nothing
  was removed, created or written and that the renderer was not called.  The probe is
  the first step, before the reset of the output directory.
\<close>

theorem probe_failure_no_effect:
  assumes "get_total_pages e pdf_path = Inl err"
  shows "convert_pdf_to_slides e pdf_path w = (Inl err, w)"
  using assms by (simp add: convert_pdf_to_slides_def)

theorem probe_failure_no_effect_witness:
  "get_total_pages corrupt_env ''talks/deck.pdf'' = Inl RuntimeError \<and>
   convert_pdf_to_slides corrupt_env ''talks/deck.pdf'' used_world = (Inl RuntimeError, used_world)"
proof -
  have h: "get_total_pages corrupt_env ''talks/deck.pdf'' = Inl RuntimeError"
    by (rule corrupt_env_pages)
  show ?thesis
    using h probe_failure_no_effect [OF h, of used_world] by simp
qed

section \<open>The format of the slides\<close>

text \<open>
  C5.  Every image that a run saves, whether the run ends well or not, is 1920 pixels
  wide and 1080 pixels high and has the colour mode \<^verbatim>\<open>RGB\<close>, whatever size and mode the
  renderer delivered; and after a run that ends well every entry of the output
  directory is such an image, encoded as JPEG at the fixed quality.
\<close>

theorem slides_have_fixed_format:
  assumes "convert_pdf_to_slides e pdf_path w = (r, w')"
    and "journal w' = journal w @ evs"
  shows "(\<forall>path q im. Saved path q im \<in> set evs \<longrightarrow>
            img_size im = (1920, 1080) \<and> img_mode im = ''RGB'') \<and>
         (r = Inr () \<longrightarrow>
            (\<exists>S. lookup (files w') (components OUTPUT_DIR) = Some (Dir S) \<and>
              (\<forall>name x. S name = Some x \<longrightarrow>
                 (\<exists>im. x = File (Jpeg JPG_QUALITY im) \<and>
                    img_size im = (1920, 1080) \<and> img_mode im = ''RGB''))))"
  using assms(1)
proof (cases rule: run_outcomes)
  case (probe_failed err)
  with assms(2) show ?thesis by simp
next
  case (reset_failed n)
  with assms(2) show ?thesis by simp
next
  case (render_failed n err)
  with assms(2) have "evs = reset_events w @ loop_events e pdf_path [1..n]" by simp
  with render_failed show ?thesis
    by (auto simp add: reset_events_def slide_image_format dest!: Saved_in_loop_events)
next
  case (dump_failed n)
  with assms(2) have "evs = reset_events w @ loop_events e pdf_path [1..n]" by simp
  with dump_failed show ?thesis
    by (auto simp add: reset_events_def slide_image_format dest!: Saved_in_loop_events)
next
  case (finished n)
  let ?S = "slides_of e pdf_path [1..n] Map.empty"
  from finished assms(2) have evs: "evs = reset_events w @ loop_events e pdf_path [1..n] @
       [Dumped META_PATH \<lparr>total_pages = n, version = 1,
          generated_at = strftime_now e, source_pdf = basename pdf_path\<rparr>]" by simp
  have a: "\<forall>path q im. Saved path q im \<in> set evs \<longrightarrow>
            img_size im = (1920, 1080) \<and> img_mode im = ''RGB''"
    using evs by (auto simp add: reset_events_def slide_image_format dest!: Saved_in_loop_events)
  have b: "lookup (files w') (components OUTPUT_DIR) = Some (Dir ?S)"
    using finished by (simp add: lookup_OUTPUT_DIR_final)
  have c: "\<forall>name x. ?S name = Some x \<longrightarrow>
       (\<exists>im. x = File (Jpeg JPG_QUALITY im) \<and> img_size im = (1920, 1080) \<and> img_mode im = ''RGB'')"
    by (auto dest!: slides_of_entries simp add: slide_image_format)
  from a b c show ?thesis by blast
qed

theorem slides_have_fixed_format_witness:
  "convert_pdf_to_slides deck_env ''talks/deck.pdf'' used_world =
     (Inr (), snd (convert_pdf_to_slides deck_env ''talks/deck.pdf'' used_world)) \<and>
   journal (snd (convert_pdf_to_slides deck_env ''talks/deck.pdf'' used_world)) =
     journal used_world @ journal (snd (convert_pdf_to_slides deck_env ''talks/deck.pdf'' used_world)) \<and>
   Saved (path_join OUTPUT_DIR (slide_filename 2)) JPG_QUALITY (slide_image (a4_page 2))
     \<in> set (journal (snd (convert_pdf_to_slides deck_env ''talks/deck.pdf'' used_world))) \<and>
   img_size (a4_page 2) = (1240, 1754) \<and> img_mode (a4_page 2) = ''RGBA'' \<and>
   img_size (slide_image (a4_page 2)) = (1920, 1080) \<and>
   img_mode (slide_image (a4_page 2)) = ''RGB''"
proof -
  let ?run = "convert_pdf_to_slides deck_env ''talks/deck.pdf'' used_world"
  have h1: "?run = (Inr (), snd ?run)"
    by (simp add: deck_run)
  have h2: "journal (snd ?run) = journal used_world @ journal (snd ?run)"
    by (simp add: used_world_def)
  have h3: "Saved (path_join OUTPUT_DIR (slide_filename 2)) JPG_QUALITY (slide_image (a4_page 2))
     \<in> set (journal (snd ?run))"
    by (simp add: deck_run)
  have h4: "img_size (a4_page 2) = (1240, 1754) \<and> img_mode (a4_page 2) = ''RGBA''"
    by (simp add: a4_page_def)
  from slides_have_fixed_format [OF h1 h2] h1 h2 h3 h4 show ?thesis
    by blast
qed

section \<open>The outcome of the page-count probe\<close>

text \<open>
  C6.  The probe looks at the first line that starts with \<^verbatim>\<open>Pages:\<close> and at no other.
  In the output below the line \<^verbatim>\<open>Pages:          3\<close> is present, but the line
  \<^verbatim>\<open>Pages: x\<close> comes first: the probe does not return 3, it ends with the \<open>ValueError\<close>
  of \<^verbatim>\<open>int("x")\<close>, which is not the \<open>RuntimeError\<close> raised when no line is found.
\<close>

theorem page_count_line_counterexample:
  "pdfinfo garbled_env ''deck.pdf'' =
     Inr \<lparr>returncode = 0,
          stdout = ''Title:          Plan\<newline>Pages: x\<newline>Pages:          3\<newline>'',
          stderr = []\<rparr> \<and>
   py_splitlines ''Title:          Plan\<newline>Pages: x\<newline>Pages:          3\<newline>'' =
     [''Title:          Plan'', ''Pages: x'', ''Pages:          3''] \<and>
   get_total_pages garbled_env ''deck.pdf'' = Inl ValueError \<and>
   get_total_pages garbled_env ''deck.pdf'' \<noteq> Inr 3 \<and>
   get_total_pages garbled_env ''deck.pdf'' \<noteq> Inl RuntimeError"
  by (simp add: garbled_env_pages)
     (simp add: garbled_env_def probe_output_def py_splitlines_def is_linebreak_def)

text \<open>
  C6, amended.  When the tool cannot be run, the exception of the attempt is the
  outcome of the probe.  When the tool has run, whatever its exit status:
  \<^item> the probe ends with \<open>RuntimeError\<close> (the error that the specification calls
    \<open>MetadataUnavailable\<close>) exactly when no line of the standard output starts with
    \<^verbatim>\<open>Pages:\<close>;
  \<^item> otherwise the first line that starts with \<^verbatim>\<open>Pages:\<close> decides alone: the text between
    its first and its second colon, stripped of white space, is handed to \<open>int\<close>; the
    probe returns the integer, or ends with \<open>ValueError\<close> when the text is not an
    integer literal;
  \<^item> in particular, when that first line is \<^verbatim>\<open>Pages:\<close>, spaces, and the decimal digits of
    a number \<open>n\<close> (no more digits than \<open>int\<close> accepts), the probe returns \<open>n\<close>.
\<close>

theorem page_count_probe:
  "(\<forall>err. pdfinfo e pdf_path = Inl err \<longrightarrow> get_total_pages e pdf_path = Inl err) \<and>
   (\<forall>result. pdfinfo e pdf_path = Inr result \<longrightarrow>
      (get_total_pages e pdf_path = Inl RuntimeError \<longleftrightarrow>
         (\<forall>l\<in>set (py_splitlines (stdout result)). \<not> startswith l ''Pages:'')) \<and>
      (\<forall>before l after.
         py_splitlines (stdout result) = before @ l # after \<longrightarrow>
         (\<forall>l'\<in>set before. \<not> startswith l' ''Pages:'') \<longrightarrow>
         startswith l ''Pages:'' \<longrightarrow>
           (\<exists>field rest.
              py_split l CHR '':'' = ''Pages'' # field # rest \<and>
              get_total_pages e pdf_path =
                (case py_int (py_strip field) of
                   None \<Rightarrow> Inl ValueError
                 | Some n \<Rightarrow> Inr n)) \<and>
           (\<forall>k n. l = ''Pages:'' @ replicate k CHR '' '' @ py_str n \<longrightarrow>
              length (py_str n) \<le> max_str_digits \<longrightarrow>
              get_total_pages e pdf_path = Inr (int n))))"
proof (intro conjI allI impI)
  fix err assume "pdfinfo e pdf_path = Inl err"
  then show "get_total_pages e pdf_path = Inl err"
    by (simp add: get_total_pages_def)
next
  fix result assume r: "pdfinfo e pdf_path = Inr result"
  then have g: "get_total_pages e pdf_path = scan_lines (py_splitlines (stdout result))"
    by (simp add: get_total_pages_def)
  show "get_total_pages e pdf_path = Inl RuntimeError \<longleftrightarrow>
         (\<forall>l\<in>set (py_splitlines (stdout result)). \<not> startswith l ''Pages:'')"
    unfolding g using scan_lines_none scan_lines_some by blast
next
  fix result before l after
  assume r: "pdfinfo e pdf_path = Inr result"
    and ls: "py_splitlines (stdout result) = before @ l # after"
    and b: "\<forall>l'\<in>set before. \<not> startswith l' ''Pages:''"
    and l: "startswith l ''Pages:''"
  have g: "get_total_pages e pdf_path = scan_lines (l # after)"
    using r ls b by (simp add: get_total_pages_def scan_lines_skip)
  from l obtain field rest where f: "py_split l CHR '':'' = ''Pages'' # field # rest"
    using py_split_Pages by blast
  show "\<exists>field rest.
          py_split l CHR '':'' = ''Pages'' # field # rest \<and>
          get_total_pages e pdf_path =
            (case py_int (py_strip field) of None \<Rightarrow> Inl ValueError | Some n \<Rightarrow> Inr n)"
    using f scan_lines_first [OF l f, of after] g by simp
next
  fix result before l after k n
  assume r: "pdfinfo e pdf_path = Inr result"
    and ls: "py_splitlines (stdout result) = before @ l # after"
    and b: "\<forall>l'\<in>set before. \<not> startswith l' ''Pages:''"
    and l: "l = ''Pages:'' @ replicate k CHR '' '' @ py_str n"
    and n: "length (py_str n) \<le> max_str_digits"
  have g: "get_total_pages e pdf_path = scan_lines (l # after)"
    using r ls b by (simp add: get_total_pages_def scan_lines_skip)
  show "get_total_pages e pdf_path = Inr (int n)"
    unfolding g l using n by (rule scan_lines_count)
qed

theorem page_count_probe_witness:
  "pdfinfo deck_env ''talks/deck.pdf'' =
     Inr \<lparr>returncode = 0, stdout = ''Title:          Deck\<newline>Pages:          3\<newline>'',
          stderr = []\<rparr> \<and>
   py_splitlines ''Title:          Deck\<newline>Pages:          3\<newline>'' =
     [''Title:          Deck''] @ ''Pages:          3'' # [] \<and>
   \<not> startswith ''Title:          Deck'' ''Pages:'' \<and>
   startswith ''Pages:          3'' ''Pages:'' \<and>
   ''Pages:          3'' = ''Pages:'' @ replicate 10 CHR '' '' @ py_str 3 \<and>
   length (py_str 3) \<le> max_str_digits \<and>
   get_total_pages deck_env ''talks/deck.pdf'' = Inr 3 \<and>
   get_total_pages deck_env ''talks/deck.pdf'' \<noteq> Inl RuntimeError"
proof -
  let ?out = "''Title:          Deck\<newline>Pages:          3\<newline>''"
  let ?result = "\<lparr>returncode = 0, stdout = ?out, stderr = []\<rparr>"
  have h1: "pdfinfo deck_env ''talks/deck.pdf'' = Inr ?result"
    by (simp add: deck_env_def probe_output_def)
  have h2: "py_splitlines (stdout ?result) = [''Title:          Deck''] @ ''Pages:          3'' # []"
    by (simp add: py_splitlines_def is_linebreak_def)
  have h3: "\<forall>l'\<in>set [''Title:          Deck'']. \<not> startswith l' ''Pages:''"
    by (simp add: startswith_def)
  have h4: "startswith ''Pages:          3'' ''Pages:''"
    by (simp add: startswith_def)
  have s3: "py_str 3 = ''3''"
    by (simp add: py_str.simps digit_char_def char_of_eq_iff)
  have sp: "replicate 10 CHR '' '' = ''          ''"
    by (simp add: eval_nat_numeral)
  have h5: "''Pages:          3'' = ''Pages:'' @ replicate 10 CHR '' '' @ py_str 3"
    unfolding s3 sp by simp
  have h6: "length (py_str 3) \<le> max_str_digits"
    by (simp add: s3 max_str_digits_def)
  from page_count_probe [of deck_env "''talks/deck.pdf''"] h1
  have all: "\<forall>before l after.
         py_splitlines (stdout ?result) = before @ l # after \<longrightarrow>
         (\<forall>l'\<in>set before. \<not> startswith l' ''Pages:'') \<longrightarrow>
         startswith l ''Pages:'' \<longrightarrow>
           (\<forall>k n. l = ''Pages:'' @ replicate k CHR '' '' @ py_str n \<longrightarrow>
              length (py_str n) \<le> max_str_digits \<longrightarrow>
              get_total_pages deck_env ''talks/deck.pdf'' = Inr (int n))"
    by blast
  from all h2 h3 h4 h5 h6 have c: "get_total_pages deck_env ''talks/deck.pdf'' = Inr (int 3)"
    by blast
  from c h1 h2 h3 h4 h5 h6 show ?thesis
    by simp
qed

section \<open>Running the converter again\<close>

text \<open>
  C7.  After a run that ended well, a second run on the same document, from the tree
  that the first run left and at a later time \<open>t2\<close>, ends well too.  Its first
  operation removes the output directory, and with it every slide of the first run;
  its second creates the directory anew.  At the end the output directory has the same
  entries with the same contents as after the first run, and the metadata document
  differs from that of the first run in \<open>generated_at\<close> alone: the tree after the
  second run is the tree after the first run with that one field rewritten.
\<close>

theorem second_run_same_content:
  assumes "convert_pdf_to_slides e pdf_path w = (Inr (), w1)"
  shows "\<exists>w2 rest T S m1 m2.
           convert_pdf_to_slides (e\<lparr>strftime_now := t2\<rparr>) pdf_path w1 = (Inr (), w2) \<and>
           journal w2 = journal w1 @ Removed_tree OUTPUT_DIR # Made_dirs OUTPUT_DIR # rest \<and>
           remove_tree (components OUTPUT_DIR) (files w1) = Inr T \<and>
           lookup T (components OUTPUT_DIR) = None \<and>
           lookup (files w1) (components OUTPUT_DIR) = Some (Dir S) \<and>
           lookup (files w2) (components OUTPUT_DIR) = Some (Dir S) \<and>
           lookup (files w1) (components META_PATH) = Some (File (Json m1)) \<and>
           lookup (files w2) (components META_PATH) = Some (File (Json m2)) \<and>
           total_pages m2 = total_pages m1 \<and>
           source_pdf m2 = source_pdf m1 \<and>
           version m2 = version m1 \<and>
           generated_at m1 = strftime_now e \<and> generated_at m2 = t2 \<and>
           write_file (components META_PATH) (Json (m1\<lparr>generated_at := t2\<rparr>)) (files w1) =
             Inr (files w2)"
  using assms
proof (cases rule: run_outcomes)
  case (finished n)
  let ?e2 = "e\<lparr>strftime_now := t2\<rparr>"
  let ?S = "slides_of e pdf_path [1..n] Map.empty"
  let ?m1 = "\<lparr>total_pages = n, version = 1, generated_at = strftime_now e,
              source_pdf = basename pdf_path\<rparr>"
  let ?m2 = "\<lparr>total_pages = n, version = 1, generated_at = t2,
              source_pdf = basename pdf_path\<rparr>"
  let ?rest = "loop_events e pdf_path [1..n] @ [Dumped META_PATH ?m2]"
  let ?w2 = "w1\<lparr>files := final_tree (files w) ?S ?m2,
                journal := journal w1 @ Removed_tree OUTPUT_DIR # Made_dirs OUTPUT_DIR # ?rest\<rparr>"
  let ?T = "(files w)(''Web'' \<mapsto>
      Dir ((web_entries (files w))(''slides'' := None, ''meta.json'' \<mapsto> File (Json ?m1))))"
  have f1: "files w1 = final_tree (files w) ?S ?m1"
    using finished(6) by simp
  have p2: "get_total_pages ?e2 pdf_path = Inr n"
    using finished(1) by simp
  have x: "os_path_exists OUTPUT_DIR w1"
    using f1 by (rule os_path_exists_final_tree)
  have run2: "convert_pdf_to_slides ?e2 pdf_path w1 = (Inr (), ?w2)"
    unfolding convert_pdf_to_slides_eq [OF p2]
    by (simp add: f1 final_tree_shape final_tree_again finished(3) x reset_events_def)
  have rm: "remove_tree (components OUTPUT_DIR) (files w1) = Inr ?T"
    unfolding f1 by (rule remove_tree_final_tree)
  have gone: "lookup ?T (components OUTPUT_DIR) = None"
    by (simp add: components_OUTPUT_DIR)
  have d1: "lookup (files w1) (components OUTPUT_DIR) = Some (Dir ?S)"
    unfolding f1 by (rule lookup_OUTPUT_DIR_final)
  have d2: "lookup (files ?w2) (components OUTPUT_DIR) = Some (Dir ?S)"
    by (simp add: lookup_OUTPUT_DIR_final)
  have m1: "lookup (files w1) (components META_PATH) = Some (File (Json ?m1))"
    unfolding f1 by (rule lookup_META_PATH_final)
  have m2: "lookup (files ?w2) (components META_PATH) = Some (File (Json ?m2))"
    by (simp add: lookup_META_PATH_final)
  have wr: "write_file (components META_PATH) (Json (?m1\<lparr>generated_at := t2\<rparr>)) (files w1) =
      Inr (files ?w2)"
    unfolding f1 by (simp add: rewrite_meta_final_tree)
  have j: "journal ?w2 = journal w1 @ Removed_tree OUTPUT_DIR # Made_dirs OUTPUT_DIR # ?rest"
    by simp
  have fields: "total_pages ?m2 = total_pages ?m1" "source_pdf ?m2 = source_pdf ?m1"
    "version ?m2 = version ?m1" "generated_at ?m1 = strftime_now e" "generated_at ?m2 = t2"
    by simp_all
  from run2 j rm gone d1 d2 m1 m2 fields wr show ?thesis
    by blast
qed simp_all

theorem second_run_same_content_witness:
  "fst (convert_pdf_to_slides deck_env ''talks/deck.pdf'' used_world) = Inr () \<and>
   fst (convert_pdf_to_slides (deck_env\<lparr>strftime_now := ''2024-02-02T08:30:00Z''\<rparr>)
          ''talks/deck.pdf''
          (snd (convert_pdf_to_slides deck_env ''talks/deck.pdf'' used_world))) = Inr () \<and>
   lookup (files (snd (convert_pdf_to_slides deck_env ''talks/deck.pdf'' used_world)))
     (components META_PATH) =
     Some (File (Json \<lparr>total_pages = 3, version = 1,
        generated_at = ''2024-01-01T00:00:00Z'', source_pdf = ''deck.pdf''\<rparr>)) \<and>
   lookup (files (snd (convert_pdf_to_slides (deck_env\<lparr>strftime_now := ''2024-02-02T08:30:00Z''\<rparr>)
          ''talks/deck.pdf''
          (snd (convert_pdf_to_slides deck_env ''talks/deck.pdf'' used_world)))))
     (components META_PATH) =
     Some (File (Json \<lparr>total_pages = 3, version = 1,
        generated_at = ''2024-02-02T08:30:00Z'', source_pdf = ''deck.pdf''\<rparr>)) \<and>
   lookup (files (snd (convert_pdf_to_slides (deck_env\<lparr>strftime_now := ''2024-02-02T08:30:00Z''\<rparr>)
          ''talks/deck.pdf''
          (snd (convert_pdf_to_slides deck_env ''talks/deck.pdf'' used_world)))))
     (components OUTPUT_DIR) =
   lookup (files (snd (convert_pdf_to_slides deck_env ''talks/deck.pdf'' used_world)))
     (components OUTPUT_DIR)"
proof -
  let ?p = "''talks/deck.pdf''"
  let ?t2 = "''2024-02-02T08:30:00Z''"
  let ?run1 = "convert_pdf_to_slides deck_env ?p used_world"
  let ?run2 = "convert_pdf_to_slides (deck_env\<lparr>strftime_now := ?t2\<rparr>) ?p (snd ?run1)"
  have h1: "?run1 = (Inr (), snd ?run1)"
    by (simp add: deck_run)
  have c1: "fst ?run1 = Inr ()"
    by (simp add: deck_run)
  have c2: "basename ?p = ''deck.pdf''"
    by (simp add: basename_def)
  have c3: "lookup (files (snd ?run1)) (components META_PATH) =
     Some (File (Json \<lparr>total_pages = 3, version = 1,
        generated_at = ''2024-01-01T00:00:00Z'', source_pdf = ''deck.pdf''\<rparr>))"
    by (simp add: deck_run lookup_META_PATH_final c2)
  from second_run_same_content [OF h1, of ?t2] obtain w2 S m1 m2 where
    r2: "?run2 = (Inr (), w2)"
    and d: "lookup (files (snd ?run1)) (components OUTPUT_DIR) = Some (Dir S)"
      "lookup (files w2) (components OUTPUT_DIR) = Some (Dir S)"
    and m: "lookup (files (snd ?run1)) (components META_PATH) = Some (File (Json m1))"
      "lookup (files w2) (components META_PATH) = Some (File (Json m2))"
      "total_pages m2 = total_pages m1" "source_pdf m2 = source_pdf m1"
      "version m2 = version m1" "generated_at m2 = ?t2"
    by blast
  from m(1) c3 have "m1 = \<lparr>total_pages = 3, version = 1,
        generated_at = ''2024-01-01T00:00:00Z'', source_pdf = ''deck.pdf''\<rparr>"
    by simp
  with m have "m2 = \<lparr>total_pages = 3, version = 1,
        generated_at = ?t2, source_pdf = ''deck.pdf''\<rparr>"
    by (cases m2) simp
  with r2 d m c1 c3 show ?thesis
    by simp
qed

section \<open>A document without pages\<close>

text \<open>
  C8.  When the probed page count is 0, a run that ends well has created the output
  directory and left it empty: the loop made no iteration, so the renderer was never
  called and nothing was saved.  The only operations of the run are the removal of an
  output directory that was there before, the creation of the new one, and the writing
  of the metadata document, whose \<open>total_pages\<close> is 0.
\<close>

theorem no_pages_no_slides:
  assumes "get_total_pages e pdf_path = Inr 0"
    and "convert_pdf_to_slides e pdf_path w = (Inr (), w')"
    and "journal w' = journal w @ evs"
  shows "lookup (files w') (components OUTPUT_DIR) = Some (Dir Map.empty) \<and>
         evs = (if os_path_exists OUTPUT_DIR w then [Removed_tree OUTPUT_DIR] else []) @
               [Made_dirs OUTPUT_DIR,
                Dumped META_PATH \<lparr>total_pages = 0, version = 1,
                  generated_at = strftime_now e, source_pdf = basename pdf_path\<rparr>] \<and>
         rendered_pages evs = [] \<and> saved_paths evs = [] \<and>
         lookup (files w') (components META_PATH) =
           Some (File (Json \<lparr>total_pages = 0, version = 1,
                  generated_at = strftime_now e, source_pdf = basename pdf_path\<rparr>))"
  using assms(2)
proof (cases rule: run_outcomes)
  case (finished n)
  with assms(1) have n: "n = 0" by simp
  have evs: "evs = (if os_path_exists OUTPUT_DIR w then [Removed_tree OUTPUT_DIR] else []) @
               [Made_dirs OUTPUT_DIR,
                Dumped META_PATH \<lparr>total_pages = 0, version = 1,
                  generated_at = strftime_now e, source_pdf = basename pdf_path\<rparr>]"
    using finished(6) assms(3) n by (simp add: reset_events_def)
  have dir: "lookup (files w') (components OUTPUT_DIR) = Some (Dir Map.empty)"
    using finished(6) n by (simp add: lookup_OUTPUT_DIR_final)
  have meta: "lookup (files w') (components META_PATH) =
           Some (File (Json \<lparr>total_pages = 0, version = 1,
                  generated_at = strftime_now e, source_pdf = basename pdf_path\<rparr>))"
    using finished(6) n by (simp add: lookup_META_PATH_final)
  have proj: "rendered_pages evs = []" "saved_paths evs = []"
    by (simp_all add: evs)
  from dir evs proj meta show ?thesis by simp
qed simp_all

theorem no_pages_no_slides_witness:
  "get_total_pages blank_env ''empty.pdf'' = Inr 0 \<and>
   fst (convert_pdf_to_slides blank_env ''empty.pdf'' used_world) = Inr () \<and>
   lookup (files used_world) (components (path_join OUTPUT_DIR ''notes.txt'')) =
     Some (File (Bytes ''stale'')) \<and>
   lookup (files (snd (convert_pdf_to_slides blank_env ''empty.pdf'' used_world)))
     (components OUTPUT_DIR) = Some (Dir Map.empty) \<and>
   lookup (files (snd (convert_pdf_to_slides blank_env ''empty.pdf'' used_world)))
     (components META_PATH) =
     Some (File (Json \<lparr>total_pages = 0, version = 1,
        generated_at = ''2024-01-01T00:00:00Z'', source_pdf = ''empty.pdf''\<rparr>))"
proof -
  let ?run = "convert_pdf_to_slides blank_env ''empty.pdf'' used_world"
  have h1: "get_total_pages blank_env ''empty.pdf'' = Inr 0"
    by (rule blank_env_pages)
  have h2: "?run = (Inr (), snd ?run)"
    by (simp add: blank_run)
  have h3: "journal (snd ?run) = journal used_world @ journal (snd ?run)"
    by (simp add: used_world_def)
  have c1: "lookup (files used_world) (components (path_join OUTPUT_DIR ''notes.txt'')) =
     Some (File (Bytes ''stale''))"
    by (simp add: used_world_def components_def path_join_def OUTPUT_DIR_def startswith_def
        py_split_def)
  have c2: "strftime_now blank_env = ''2024-01-01T00:00:00Z''"
    by (simp add: blank_env_def deck_env_def)
  have c3: "basename ''empty.pdf'' = ''empty.pdf''"
    by (simp add: basename_def)
  have c4: "fst ?run = Inr ()"
    by (simp add: blank_run)
  from no_pages_no_slides [OF h1 h2 h3] h1 c1 c2 c3 c4 show ?thesis
    by simp
qed

section \<open>The metadata file lies beside the output directory\<close>



section \<open>The first image of a rendered page\<close>

text \<open>
  C10.  Suppose the renderer returns a non-empty list of images for every single-page
  range \<open>first_page = last_page = i\<close> with \<open>1 \<le> i \<le> n\<close>, where \<open>n\<close> is the probed page
  count.  Then the run never ends with the \<open>IndexError\<close> of \<^verbatim>\<open>pages[0]\<close>; and every call
  of the renderer that the run makes is such a single-page range of the source
  document at the fixed density, so that the list indexed in that iteration has a
  first element.
\<close>

theorem first_page_index_in_bounds:
  assumes "get_total_pages e pdf_path = Inr n"
    and "\<forall>i\<in>{1..n}. \<exists>page rest. convert_from_path e pdf_path DPI i i = Inr (page # rest)"
    and "convert_pdf_to_slides e pdf_path w = (r, w')"
    and "journal w' = journal w @ evs"
  shows "r \<noteq> Inl IndexError \<and>
         (\<forall>q d a b. Rendered q d a b \<in> set evs \<longrightarrow>
            q = pdf_path \<and> d = DPI \<and> a = b \<and> 1 \<le> a \<and> a \<le> n \<and>
            (\<exists>page rest. convert_from_path e q d a b = Inr (page # rest)))"
proof -
  have ok: "\<forall>i\<in>set [1..n]. render_failure e pdf_path i = None"
    using assms(2) by (simp only: pages_ok_upto)
  then have l: "loop_result e pdf_path [1..n] = Inr ()"
    by (rule loop_result_ok)
  have calls: "\<forall>q d a b. Rendered q d a b \<in> set (reset_events w @ loop_events e pdf_path [1..n]) \<longrightarrow>
      q = pdf_path \<and> d = DPI \<and> a = b \<and> 1 \<le> a \<and> a \<le> n \<and>
      (\<exists>page rest. convert_from_path e q d a b = Inr (page # rest))"
    using assms(2) by (auto simp add: reset_events_def dest!: Rendered_in_loop_events)
  from assms(3) show ?thesis
  proof (cases rule: run_outcomes)
    case (probe_failed err)
    with assms(1) show ?thesis by simp
  next
    case (reset_failed m)
    with assms(4) show ?thesis by simp
  next
    case (render_failed m err)
    with assms(1) l show ?thesis by simp
  next
    case (dump_failed m)
    with assms(1,4) have "evs = reset_events w @ loop_events e pdf_path [1..n]" by simp
    with calls dump_failed show ?thesis by simp
  next
    case (finished m)
    with assms(1,4) have "evs = (reset_events w @ loop_events e pdf_path [1..n]) @
       [Dumped META_PATH \<lparr>total_pages = n, version = 1,
          generated_at = strftime_now e, source_pdf = basename pdf_path\<rparr>]" by simp
    with calls finished show ?thesis by simp
  qed
qed

theorem first_page_index_in_bounds_witness:
  "get_total_pages deck_env ''talks/deck.pdf'' = Inr 3 \<and>
   convert_from_path deck_env ''talks/deck.pdf'' DPI 1 1 = Inr [a4_page 1] \<and>
   convert_from_path deck_env ''talks/deck.pdf'' DPI 2 2 = Inr [a4_page 2] \<and>
   fst (convert_pdf_to_slides deck_env ''talks/deck.pdf'' used_world) \<noteq> Inl IndexError \<and>
   Rendered ''talks/deck.pdf'' DPI 3 3
     \<in> set (journal (snd (convert_pdf_to_slides deck_env ''talks/deck.pdf'' used_world))) \<and>
   convert_from_path deck_env ''talks/deck.pdf'' DPI 3 3 = Inr [a4_page 3]"
proof -
  let ?run = "convert_pdf_to_slides deck_env ''talks/deck.pdf'' used_world"
  have h1: "get_total_pages deck_env ''talks/deck.pdf'' = Inr 3"
    by (rule deck_env_pages)
  have h2: "\<forall>i\<in>{1..3}. \<exists>page rest.
      convert_from_path deck_env ''talks/deck.pdf'' DPI i i = Inr (page # rest)"
    by (simp add: deck_env_def)
  have h3: "?run = (fst ?run, snd ?run)"
    by simp
  have h4: "journal (snd ?run) = journal used_world @ journal (snd ?run)"
    by (simp add: used_world_def)
  have c1: "Rendered ''talks/deck.pdf'' DPI 3 3 \<in> set (journal (snd ?run))"
    by (simp add: deck_run)
  have c2: "convert_from_path deck_env ''talks/deck.pdf'' DPI 3 3 = Inr [a4_page 3]"
    by (simp add: deck_env_def)
  have c3: "convert_from_path deck_env ''talks/deck.pdf'' DPI 1 1 = Inr [a4_page 1]"
    "convert_from_path deck_env ''talks/deck.pdf'' DPI 2 2 = Inr [a4_page 2]"
    by (simp_all add: deck_env_def)
  from first_page_index_in_bounds [OF h1 h2 h3 h4] h1 c1 c2 c3 show ?thesis
    by blast
qed

end
